theory Spec2Isabelle
  imports Complex_Main "HOL-Library.Word"
begin

section \<open>Conventions of the embedding\<close>

text \<open>
  The firmware targets an 8-bit AVR board: \<open>unsigned long\<close> and \<open>uint32_t\<close> are
  32-bit words, \<open>uint8_t\<close> is an 8-bit word, and both wrap around.  Values of type
  \<open>float\<close> are modelled as real numbers, so the rounding of single-precision
  arithmetic and the special values (NaN, infinities) are outside the model, except that
  the moving average is also given with its single-precision operations as parameters; every
  division whose divisor may be zero in the source is either guarded in the model the way
  the source guards it, or the divisor is assumed non-zero in the theorem that needs it.
  The \<open>long\<close> step counter and the \<open>long\<close> running sum are modelled as unbounded
  integers; the comment at each of them says why they cannot overflow.
\<close>

type_synonym u8 = "8 word"
type_synonym u32 = "32 word"

text \<open>\<open>lroundf\<close>: round to nearest, halfway cases away from zero.\<close>

definition lroundf :: "real \<Rightarrow> int" where
  "lroundf x = (if 0 \<le> x then \<lfloor>x + 1 / 2\<rfloor> else - \<lfloor>- x + 1 / 2\<rfloor>)"

section \<open>MovingAverage (MovingAverage.cpp)\<close>

text \<open>
  The template parameters \<open>N\<close> and \<open>SCALE\<close> are explicit arguments.  \<open>buf_\<close> is an
  array of \<open>N\<close> \<open>int16_t\<close> values; \<open>toFixed_\<close> clamps before it casts, so the stored
  values are integers in the \<open>int16_t\<close> range and the cast changes nothing.  \<open>sum_\<close> is
  a \<open>long\<close> holding at most \<open>N\<close> values of 16 bits.
\<close>

record MovingAverage =
  ma_buf :: "int list"
  ma_idx :: nat
  ma_filled :: bool
  ma_sum :: int

definition toFixed :: "int \<Rightarrow> real \<Rightarrow> int" where
  "toFixed SCALE xA =
     (let xmA = xA * real_of_int SCALE;
          xmA = (if xmA > 32767 then 32767 else xmA);
          xmA = (if xmA < - 32768 then - 32768 else xmA)
      in lroundf xmA)"

definition MovingAverage_update ::
    "nat \<Rightarrow> int \<Rightarrow> real \<Rightarrow> MovingAverage \<Rightarrow> real \<times> MovingAverage" where
  "MovingAverage_update N SCALE xA m =
     (let xmA = toFixed SCALE xA;
          s1 = ma_sum m - ma_buf m ! ma_idx m;
          b = (ma_buf m)[ma_idx m := xmA];
          s2 = s1 + xmA;
          i = ma_idx m + 1;
          f = (if i \<ge> N then True else ma_filled m);
          i = (if i \<ge> N then 0 else i);
          denom = (if f then int N else int i);
          denom = (if denom \<le> 0 then 1 else denom)
      in ((real_of_int s2 / real_of_int denom) / real_of_int SCALE,
          \<lparr>ma_buf = b, ma_idx = i, ma_filled = f, ma_sum = s2\<rparr>))"

text \<open>The fill loop of \<open>reset\<close>: \<open>for (i = 0; i < N; i++) { buf_[i] = x0; sum_ += x0; }\<close>.\<close>

definition reset_fill :: "nat \<Rightarrow> int \<Rightarrow> int list \<times> int \<Rightarrow> int list \<times> int" where
  "reset_fill N x0 bs = fold (\<lambda>i (b, s). (b[i := x0], s + x0)) [0..<N] bs"

definition MovingAverage_reset :: "nat \<Rightarrow> int \<Rightarrow> real \<Rightarrow> MovingAverage \<Rightarrow> MovingAverage" where
  "MovingAverage_reset N SCALE x0A m =
     (let x0 = toFixed SCALE x0A;
          (b, s) = reset_fill N x0 (ma_buf m, 0);
          f = (if x0 \<noteq> 0 then True else False)
      in \<lparr>ma_buf = b, ma_idx = 0, ma_filled = f, ma_sum = s\<rparr>)"

definition filled :: "MovingAverage \<Rightarrow> bool" where
  "filled m = ma_filled m"

text \<open>A sequence of \<open>update\<close> calls; the first component is the value returned last.\<close>

fun MovingAverage_run ::
    "nat \<Rightarrow> int \<Rightarrow> real list \<Rightarrow> real \<times> MovingAverage \<Rightarrow> real \<times> MovingAverage" where
  "MovingAverage_run N SCALE [] rm = rm"
| "MovingAverage_run N SCALE (x # xs) rm =
     MovingAverage_run N SCALE xs (MovingAverage_update N SCALE x (snd rm))"


section \<open>MovingAverage with the single-precision operations as parameters\<close>

text \<open>
  The definitions above compute in the reals.  \<open>toFixed_\<close> and \<open>update\<close> use three
  operations on \<open>float\<close>: the product \<open>xA * SCALE\<close>, the two quotients of the returned
  value \<open>(sum_ / (float)denom) / SCALE\<close>, and the conversion of an integer (\<open>SCALE\<close>,
  \<open>sum_\<close>, \<open>denom\<close>) to \<open>float\<close>.  In the definitions of this section the three
  operations are parameters, so that a statement about them covers whatever values the
  arithmetic of the target returns; the comparisons with the bounds and \<open>lroundf\<close> are
  exact.  With the exact operations these are the functions above
  (\<open>MovingAverage_update_fp_exact\<close>).
\<close>

record float_ops =
  fmul :: "real \<Rightarrow> real \<Rightarrow> real"
  fdiv :: "real \<Rightarrow> real \<Rightarrow> real"
  to_float :: "int \<Rightarrow> real"

definition toFixed_fp :: "float_ops \<Rightarrow> int \<Rightarrow> real \<Rightarrow> int" where
  "toFixed_fp ops SCALE xA =
     (let xmA = fmul ops xA (to_float ops SCALE);
          xmA = (if xmA > 32767 then 32767 else xmA);
          xmA = (if xmA < - 32768 then - 32768 else xmA)
      in lroundf xmA)"

definition MovingAverage_update_fp ::
    "float_ops \<Rightarrow> nat \<Rightarrow> int \<Rightarrow> real \<Rightarrow> MovingAverage \<Rightarrow> real \<times> MovingAverage" where
  "MovingAverage_update_fp ops N SCALE xA m =
     (let xmA = toFixed_fp ops SCALE xA;
          s1 = ma_sum m - ma_buf m ! ma_idx m;
          b = (ma_buf m)[ma_idx m := xmA];
          s2 = s1 + xmA;
          i = ma_idx m + 1;
          f = (if i \<ge> N then True else ma_filled m);
          i = (if i \<ge> N then 0 else i);
          denom = (if f then int N else int i);
          denom = (if denom \<le> 0 then 1 else denom)
      in (fdiv ops (fdiv ops (to_float ops s2) (to_float ops denom)) (to_float ops SCALE),
          \<lparr>ma_buf = b, ma_idx = i, ma_filled = f, ma_sum = s2\<rparr>))"

definition MovingAverage_reset_fp ::
    "float_ops \<Rightarrow> nat \<Rightarrow> int \<Rightarrow> real \<Rightarrow> MovingAverage \<Rightarrow> MovingAverage" where
  "MovingAverage_reset_fp ops N SCALE x0A m =
     (let x0 = toFixed_fp ops SCALE x0A;
          (b, s) = reset_fill N x0 (ma_buf m, 0);
          f = (if x0 \<noteq> 0 then True else False)
      in \<lparr>ma_buf = b, ma_idx = 0, ma_filled = f, ma_sum = s\<rparr>)"

fun MovingAverage_run_fp ::
    "float_ops \<Rightarrow> nat \<Rightarrow> int \<Rightarrow> real list \<Rightarrow> real \<times> MovingAverage \<Rightarrow> real \<times> MovingAverage" where
  "MovingAverage_run_fp ops N SCALE [] rm = rm"
| "MovingAverage_run_fp ops N SCALE (x # xs) rm =
     MovingAverage_run_fp ops N SCALE xs (MovingAverage_update_fp ops N SCALE x (snd rm))"

definition exact_ops :: float_ops where
  "exact_ops = \<lparr>fmul = (\<lambda>a b. a * b), fdiv = (\<lambda>a b. a / b), to_float = real_of_int\<rparr>"

section \<open>Hardware effects\<close>

text \<open>
  Calls that act on the board are recorded as effects, in the order the code issues them.
  The display is a pure sink and its calls are left out.
\<close>

datatype Level = LOW | HIGH

datatype Pin = pSTEP | pDIR | pEN | relayPin1 | relayPin2 | limitPin

datatype Effect =
    DigitalWrite Pin Level
  | DelayMicroseconds nat
  | Delay nat
  | CallSetSpeedMmPerSec real
  | CallMoveRelativeMm real real

section \<open>StepperDriver (StepperDriver.h, StepperDriver.cpp)\<close>

datatype Motion = Idle | Velocity | ToTarget

text \<open>
  \<open>pos_steps_\<close> and \<open>target_steps_\<close> are \<open>long\<close>; the counter moves by one per
  pulse, so it is modelled as an unbounded integer.  \<open>hw\<close> lists the effects the driver
  has issued on its pins.
\<close>

record StepperDriver =
  stepsPerMm :: real
  default_mm_s :: real
  pos_steps :: int
  speed_mm_s :: real
  dir :: bool
  tNextStep :: u32
  motion :: Motion
  target_steps :: int
  hw :: "Effect list"

definition StepperDriver_new :: "real \<Rightarrow> int \<Rightarrow> real \<Rightarrow> real \<Rightarrow> StepperDriver" where
  "StepperDriver_new stepsPerRev microsteps lead_mm max_mm_s =
     \<lparr>stepsPerMm = (stepsPerRev * real_of_int microsteps) / lead_mm,
      default_mm_s = max_mm_s / 2,
      pos_steps = 0, speed_mm_s = 0, dir = True, tNextStep = 0, motion = Idle,
      target_steps = 0,
      hw = [DigitalWrite pSTEP LOW, DigitalWrite pDIR LOW, DigitalWrite pEN HIGH]\<rparr>"

definition StepperDriver_enable :: "bool \<Rightarrow> StepperDriver \<Rightarrow> StepperDriver" where
  "StepperDriver_enable on s = s\<lparr>hw := hw s @ [DigitalWrite pEN (if on then LOW else HIGH)]\<rparr>"

definition setSpeedMmPerSec :: "real \<Rightarrow> StepperDriver \<Rightarrow> StepperDriver" where
  "setSpeedMmPerSec v0 s =
     (let vmax = default_mm_s s * 2;
          v = (if v0 > vmax then vmax else v0);
          v = (if v < - vmax then - vmax else v);
          wasIdle = (motion s = Idle \<or> speed_mm_s s = 0);
          s = s\<lparr>speed_mm_s := v, motion := (if v = 0 then Idle else Velocity)\<rparr>;
          newDir = (v \<ge> 0);
          s = (if newDir \<noteq> dir s
               then s\<lparr>dir := newDir,
                      hw := hw s @ [DigitalWrite pDIR (if newDir then HIGH else LOW)]\<rparr>
               else s)
      in if v \<noteq> 0 \<and> wasIdle then s\<lparr>tNextStep := 0\<rparr> else s)"

definition stepOnce :: "StepperDriver \<Rightarrow> StepperDriver" where
  "stepOnce s =
     s\<lparr>hw := hw s @ [DigitalWrite pSTEP HIGH, DelayMicroseconds 2, DigitalWrite pSTEP LOW],
       pos_steps := pos_steps s + (if dir s then 1 else - 1)\<rparr>"

definition moveToMm :: "real \<Rightarrow> real \<Rightarrow> StepperDriver \<Rightarrow> StepperDriver" where
  "moveToMm x_mm v_mm_s s0 =
     (let tgt = lroundf (x_mm * stepsPerMm s0);
          s = s0\<lparr>target_steps := tgt\<rparr>;
          goPos = (target_steps s > pos_steps s);
          s = s\<lparr>dir := goPos, hw := hw s @ [DigitalWrite pDIR (if goPos then HIGH else LOW)]\<rparr>;
          v = \<bar>v_mm_s\<bar>;
          v = (if v \<le> 0 then default_mm_s s else v);
          vmax = default_mm_s s * 2;
          v = (if v > vmax then vmax else v)
      in s\<lparr>speed_mm_s := (if dir s then v else - v), motion := ToTarget, tNextStep := 0\<rparr>)"

definition positionMm :: "StepperDriver \<Rightarrow> real" where
  "positionMm s = real_of_int (pos_steps s) / stepsPerMm s"

definition setPositionMm :: "real \<Rightarrow> StepperDriver \<Rightarrow> StepperDriver" where
  "setPositionMm pos_mm s = s\<lparr>pos_steps := lroundf (pos_mm * stepsPerMm s)\<rparr>"

definition moveRelativeMm :: "real \<Rightarrow> real \<Rightarrow> StepperDriver \<Rightarrow> StepperDriver" where
  "moveRelativeMm dx_mm v_mm_s s = moveToMm (positionMm s + dx_mm) v_mm_s s"

definition isBusy :: "StepperDriver \<Rightarrow> bool" where
  "isBusy s = (motion s = ToTarget)"

text \<open>
  \<open>update\<close> reads \<open>micros()\<close> once on every path; the value read is the argument
  \<open>us\<close>.  The step rate is at least one per second where the period is computed, so
  the quotient lies between 0 and 1000000 and the cast to \<open>uint32_t\<close> truncates it.
\<close>

definition StepperDriver_update :: "u32 \<Rightarrow> StepperDriver \<Rightarrow> StepperDriver" where
  "StepperDriver_update us s0 =
     (if motion s0 = Idle \<and> speed_mm_s s0 = 0 then s0\<lparr>tNextStep := us\<rparr>
      else
        let v = \<bar>speed_mm_s s0\<bar>;
            stepsPerSec = v * stepsPerMm s0
        in if stepsPerSec < 1 then s0
           else
             let period_us = (word_of_int \<lfloor>1000000 / stepsPerSec\<rfloor> :: u32);
                 now = us;
                 s = (if tNextStep s0 = 0 then s0\<lparr>tNextStep := now\<rparr> else s0)
             in if 0 \<le> sint (now - tNextStep s) then
                  let s = s\<lparr>tNextStep := now + period_us\<rparr>;
                      s = stepOnce s
                  in if motion s = ToTarget then
                       (if dir s then
                          (if pos_steps s \<ge> target_steps s
                           then s\<lparr>speed_mm_s := 0, motion := Idle\<rparr> else s)
                        else
                          (if pos_steps s \<le> target_steps s
                           then s\<lparr>speed_mm_s := 0, motion := Idle\<rparr> else s))
                     else s
                else s)"

section \<open>CurrentSensor (CurrentSensor.h, CurrentSensor.cpp)\<close>

record CurrentSensor =
  Vref :: real
  adcMaxValue :: real
  k_cal :: real
  enabled :: bool
  sampleWindow_us :: u32
  sampleInterval_us :: u32
  nextSampleTime :: u32
  windowStart :: u32
  adcMin :: int
  adcMax :: int
  Vpp :: real
  Irms :: real
  sumV :: real
  sumV2 :: real
  nSamples :: u32

text \<open>
  The two divisions by the sample count.  A division by a zero count is an error value of
  the model, so that a path of \<open>update\<close> that divided by zero would return \<open>None\<close>.
\<close>

definition div_by_count :: "real \<Rightarrow> u32 \<Rightarrow> real option" where
  "div_by_count x n = (if n = 0 then None else Some (x / real (unat n)))"

text \<open>
  \<open>update\<close>: \<open>now\<close> is the value of \<open>micros()\<close>, \<open>adc\<close> the value \<open>analogRead\<close>
  returns if a sample is taken.
\<close>

definition CurrentSensor_update :: "u32 \<Rightarrow> int \<Rightarrow> CurrentSensor \<Rightarrow> CurrentSensor option" where
  "CurrentSensor_update now adc s0 =
     (if \<not> enabled s0 then Some s0
      else
        let s = (if 0 \<le> sint (now - nextSampleTime s0) then
                   let s = s0\<lparr>nextSampleTime := nextSampleTime s0 + sampleInterval_us s0\<rparr>;
                       s = (if adc < adcMin s then s\<lparr>adcMin := adc\<rparr> else s);
                       s = (if adc > adcMax s then s\<lparr>adcMax := adc\<rparr> else s);
                       v = real_of_int adc * (Vref s / adcMaxValue s)
                   in s\<lparr>sumV := sumV s + v, sumV2 := sumV2 s + v * v,
                        nSamples := nSamples s + 1\<rparr>
                 else s0)
        in if sint (sampleWindow_us s) \<le> sint (now - windowStart s) then
             let s = s\<lparr>windowStart := windowStart s + sampleWindow_us s\<rparr>;
                 span = adcMax s - adcMin s;
                 span = (if span < 0 then 0 else span);
                 s = s\<lparr>Vpp := real_of_int span * (Vref s / adcMaxValue s)\<rparr>;
                 r = (if nSamples s > 0 then
                        (case div_by_count (sumV s) (nSamples s) of
                           None \<Rightarrow> None
                         | Some meanV \<Rightarrow>
                             (case div_by_count (sumV2 s) (nSamples s) of
                                None \<Rightarrow> None
                              | Some meanV2 \<Rightarrow>
                                  let var = meanV2 - meanV * meanV;
                                      var = (if var < 0 then 0 else var);
                                      Vrms_ac = sqrt var
                                  in Some (s\<lparr>Irms := k_cal s * Vrms_ac\<rparr>)))
                      else Some s)
             in (case r of
                   None \<Rightarrow> None
                 | Some s \<Rightarrow>
                     Some (s\<lparr>adcMin := 1023, adcMax := 0, sumV := 0, sumV2 := 0,
                             nSamples := 0\<rparr>))
           else Some s)"

definition lastIrms :: "CurrentSensor \<Rightarrow> real" where
  "lastIrms s = Irms s"

definition correctedIrms :: "real \<Rightarrow> CurrentSensor \<Rightarrow> real" where
  "correctedIrms baseline s = (let I = Irms s - baseline in if I < 0 then 0 else I)"

definition setEnabled :: "bool \<Rightarrow> CurrentSensor \<Rightarrow> CurrentSensor" where
  "setEnabled en s = s\<lparr>enabled := en\<rparr>"


section \<open>Parameters (Parameters.h, Parameters.cpp)\<close>

record Mod1Params =
  p1_plungeAfterSurface_mm :: real
  p1_etchingThreshold_A :: real
  p1_retractSpeed_mm_s :: real

record Mod2Params =
  p2_plungeAfterSurface_mm :: real
  p2_etchingThreshold_A :: real
  p2_plungeAfterEtch_mm :: real
  p2_pulseCount :: int
  p2_pulseOn_s :: real
  p2_pulseOff_s :: real

record AllParams =
  mod1 :: Mod1Params
  mod2 :: Mod2Params

definition gParams_default :: AllParams where
  "gParams_default =
     \<lparr>mod1 = \<lparr>p1_plungeAfterSurface_mm = 4, p1_etchingThreshold_A = 5 / 100,
               p1_retractSpeed_mm_s = 15 / 1000\<rparr>,
      mod2 = \<lparr>p2_plungeAfterSurface_mm = 4, p2_etchingThreshold_A = 5 / 100,
               p2_plungeAfterEtch_mm = 3, p2_pulseCount = 5, p2_pulseOn_s = 1 / 2,
               p2_pulseOff_s = 2\<rparr>\<rparr>"

section \<open>The objects the modes share (Modes.h, the sketch)\<close>

text \<open>
  Every mode holds references to the one stepper driver, the one current sensor and the two
  moving averages (\<open>IAvg_t = MovingAverage<200, 1000>\<close>,
  \<open>IAvg_s = MovingAverage<20, 1000>\<close>), and reads the globals \<open>baselineCurrent\<close> and
  \<open>gParams\<close>.  \<open>pins\<close> is the level last written to each output pin by a mode and
  \<open>trace\<close> the effects the modes have issued, oldest first.
\<close>

text \<open>
  A call a mode makes on one of these objects is a function \<open>call_\<dots>\<close> on the world; the
  calls that command a motion are also recorded in \<open>trace\<close>.
\<close>

record World =
  stepper :: StepperDriver
  current :: CurrentSensor
  baselineCurrent :: real
  gParams :: AllParams
  Iavg :: MovingAverage
  IavgS :: MovingAverage
  pins :: "Pin \<Rightarrow> Level"
  trace :: "Effect list"

definition digitalWrite :: "Pin \<Rightarrow> Level \<Rightarrow> 'a World_scheme \<Rightarrow> 'a World_scheme" where
  "digitalWrite p l w = w\<lparr>pins := (pins w)(p := l), trace := trace w @ [DigitalWrite p l]\<rparr>"

definition delay :: "nat \<Rightarrow> 'a World_scheme \<Rightarrow> 'a World_scheme" where
  "delay ms w = w\<lparr>trace := trace w @ [Delay ms]\<rparr>"

definition call_update :: "u32 \<Rightarrow> 'a World_scheme \<Rightarrow> 'a World_scheme" where
  "call_update us w = w\<lparr>stepper := StepperDriver_update us (stepper w)\<rparr>"

definition call_enable :: "bool \<Rightarrow> 'a World_scheme \<Rightarrow> 'a World_scheme" where
  "call_enable on w = w\<lparr>stepper := StepperDriver_enable on (stepper w)\<rparr>"

definition call_setSpeedMmPerSec :: "real \<Rightarrow> 'a World_scheme \<Rightarrow> 'a World_scheme" where
  "call_setSpeedMmPerSec v w =
     w\<lparr>stepper := setSpeedMmPerSec v (stepper w), trace := trace w @ [CallSetSpeedMmPerSec v]\<rparr>"

definition call_moveRelativeMm :: "real \<Rightarrow> real \<Rightarrow> 'a World_scheme \<Rightarrow> 'a World_scheme" where
  "call_moveRelativeMm dx v w =
     w\<lparr>stepper := moveRelativeMm dx v (stepper w), trace := trace w @ [CallMoveRelativeMm dx v]\<rparr>"

definition call_setPositionMm :: "real \<Rightarrow> 'a World_scheme \<Rightarrow> 'a World_scheme" where
  "call_setPositionMm x w = w\<lparr>stepper := setPositionMm x (stepper w)\<rparr>"

definition call_setEnabled :: "bool \<Rightarrow> 'a World_scheme \<Rightarrow> 'a World_scheme" where
  "call_setEnabled en w = w\<lparr>current := setEnabled en (current w)\<rparr>"

definition call_correctedIrms :: "'a World_scheme \<Rightarrow> real" where
  "call_correctedIrms w = correctedIrms (baselineCurrent w) (current w)"

text \<open>\<open>Iavg_.update(x)\<close> and \<open>IavgS_.update(x)\<close>: the value returned and the new world.\<close>

definition call_Iavg_update :: "real \<Rightarrow> 'a World_scheme \<Rightarrow> real \<times> 'a World_scheme" where
  "call_Iavg_update x w =
     (let (I, ma) = MovingAverage_update 200 1000 x (Iavg w) in (I, w\<lparr>Iavg := ma\<rparr>))"

definition call_IavgS_update :: "real \<Rightarrow> 'a World_scheme \<Rightarrow> real \<times> 'a World_scheme" where
  "call_IavgS_update x w =
     (let (I, ma) = MovingAverage_update 20 1000 x (IavgS w) in (I, w\<lparr>IavgS := ma\<rparr>))"

definition call_Iavg_reset :: "'a World_scheme \<Rightarrow> 'a World_scheme" where
  "call_Iavg_reset w = w\<lparr>Iavg := MovingAverage_reset 200 1000 0 (Iavg w)\<rparr>"

definition call_IavgS_reset :: "'a World_scheme \<Rightarrow> 'a World_scheme" where
  "call_IavgS_reset w = w\<lparr>IavgS := MovingAverage_reset 20 1000 0 (IavgS w)\<rparr>"

text \<open>The soft limits, local constants of each \<open>step\<close>.\<close>

definition Z_MIN :: real where "Z_MIN = 3 / 2"
definition Z_MAX :: real where "Z_MAX = 75"

section \<open>HomeMode (Modes.cpp)\<close>

record HomeMode = World +
  homed :: bool
  target :: real
  baselineMeasuring :: bool
  baselineDone :: bool
  baselineStart :: u32
  baselineSum :: real
  baselineCount :: u32

definition HomeMode_begin :: "HomeMode \<Rightarrow> HomeMode" where
  "HomeMode_begin w =
     (let w = call_enable True w;
          w = call_setSpeedMmPerSec (- 5) w
      in w\<lparr>homed := False, baselineMeasuring := False, baselineDone := False,
           baselineSum := 0, baselineCount := 0\<rparr>)"

text \<open>
  \<open>step\<close>: \<open>us\<close> is the value of \<open>micros()\<close> read by the stepper, \<open>now\<close> the value of
  \<open>millis()\<close>, \<open>limit\<close> the level \<open>digitalRead(limitPin_)\<close> returns.
\<close>

definition HomeMode_step :: "u32 \<Rightarrow> u32 \<Rightarrow> Level \<Rightarrow> HomeMode \<Rightarrow> bool \<times> HomeMode" where
  "HomeMode_step us now limit w0 =
     (if \<not> homed w0 then
        let w = call_update us w0
        in if limit = LOW then
             let w = call_setSpeedMmPerSec 0 w;
                 w = call_setPositionMm 0 w;
                 w = w\<lparr>homed := True\<rparr>;
                 w = delay 200 w;
                 w = call_setSpeedMmPerSec 5 w;
                 w = w\<lparr>target := 30\<rparr>
             in (False, w)
           else (False, w)
      else
        let w = call_update us w0
        in if \<not> baselineMeasuring w \<and> \<not> baselineDone w then
             (if positionMm (stepper w) \<ge> target w then
                let w = call_setSpeedMmPerSec 0 w;
                    w = call_setEnabled True w;
                    w = w\<lparr>baselineMeasuring := True, baselineStart := now,
                          baselineSum := 0, baselineCount := 0\<rparr>
                in (False, w)
              else (False, w))
           else if baselineMeasuring w then
             let I = lastIrms (current w);
                 w = w\<lparr>baselineSum := baselineSum w + I, baselineCount := baselineCount w + 1\<rparr>
             in if now - baselineStart w \<ge> 5000 then
                  let w = call_setEnabled False w;
                      w = w\<lparr>baselineMeasuring := False, baselineDone := True\<rparr>;
                      I0 = (if baselineCount w > 0
                            then baselineSum w / real (unat (baselineCount w)) else 0);
                      w = w\<lparr>baselineCurrent := I0\<rparr>
                  in (False, w)
                else (False, w)
           else if baselineDone w then (True, delay 2000 w)
           else (False, w))"


section \<open>Mod1Mode (Modes.cpp)\<close>

datatype Mod1State =
    M1_MovingDownDetect | M1_Wait1 | M1_MoveDown1 | M1_Wait2 | M1_Validate30V
  | M1_RelayHold | M1_Etching | M1_MoveUpBump | M1_FinalLift | M1_Done

record Mod1Mode = World +
  m1_threshold :: real
  m1_etchStart :: u32
  m1_st :: Mod1State
  m1_waitStart :: u32
  m1_validateStart :: u32
  m1_pulseCount :: u8
  m1_pulseStart :: u32
  m1_relayOn :: bool
  m1_stopTime :: u32
  m1_bumpedUp1mm :: bool

definition Mod1Mode_begin :: "Mod1Mode \<Rightarrow> Mod1Mode" where
  "Mod1Mode_begin w =
     (let w = digitalWrite relayPin1 LOW w;
          w = digitalWrite relayPin2 HIGH w;
          w = w\<lparr>m1_st := M1_MovingDownDetect, m1_relayOn := False, m1_pulseCount := 0,
                m1_etchStart := 0\<rparr>;
          w = call_Iavg_reset w;
          w = call_IavgS_reset w;
          w = w\<lparr>m1_bumpedUp1mm := False\<rparr>;
          w = call_enable True w;
          w = call_setSpeedMmPerSec (3 / 2) w
      in call_setEnabled True w)"

text \<open>
  The body of \<open>Mod1Mode::step\<close> is a chain of blocks, one for each state, each ending in
  a \<open>return\<close>.  Each block is a function of its own here, named after its state;
  \<open>Mod1Mode_step\<close> below runs the stepper, checks the soft limits and then tries the
  blocks in the order of the source.
\<close>

definition Mod1_abort :: "Mod1Mode \<Rightarrow> bool \<times> Mod1Mode" where
  "Mod1_abort w =
     (let w = call_setSpeedMmPerSec 0 w;
          w = call_setEnabled False w;
          w = digitalWrite relayPin1 HIGH w;
          w = digitalWrite relayPin2 HIGH w
      in (True, w\<lparr>m1_st := M1_Done\<rparr>))"

definition Mod1_MovingDownDetect :: "u32 \<Rightarrow> Mod1Mode \<Rightarrow> bool \<times> Mod1Mode" where
  "Mod1_MovingDownDetect now w =
     (let Iraw = call_correctedIrms w;
          (I, w) = call_IavgS_update Iraw w
      in if I \<ge> m1_threshold w then
           let w = call_setSpeedMmPerSec 0 w;
               w = w\<lparr>m1_stopTime := now\<rparr>;
               w = digitalWrite relayPin1 HIGH w;
               w = digitalWrite relayPin2 HIGH w
           in (False, w\<lparr>m1_waitStart := now, m1_st := M1_Wait1\<rparr>)
         else (False, w))"

definition Mod1_Wait1 :: "u32 \<Rightarrow> Mod1Mode \<Rightarrow> bool \<times> Mod1Mode" where
  "Mod1_Wait1 now w =
     (if now - m1_waitStart w \<ge> 1000 then
        let w = call_moveRelativeMm (p1_plungeAfterSurface_mm (mod1 (gParams w))) 1 w
        in (False, w\<lparr>m1_st := M1_MoveDown1\<rparr>)
      else (False, w))"

definition Mod1_MoveDown1 :: "u32 \<Rightarrow> Mod1Mode \<Rightarrow> bool \<times> Mod1Mode" where
  "Mod1_MoveDown1 now w =
     (if \<not> isBusy (stepper w) then (False, w\<lparr>m1_waitStart := now, m1_st := M1_Wait2\<rparr>)
      else (False, w))"

definition Mod1_Wait2 :: "u32 \<Rightarrow> Mod1Mode \<Rightarrow> bool \<times> Mod1Mode" where
  "Mod1_Wait2 now w =
     (if now - m1_waitStart w \<ge> 1000 then
        let w = digitalWrite relayPin1 HIGH w;
            w = digitalWrite relayPin2 LOW w;
            w = w\<lparr>m1_validateStart := now\<rparr>;
            w = call_Iavg_reset w;
            w = call_IavgS_reset w
        in (False, w\<lparr>m1_st := M1_Validate30V\<rparr>)
      else (False, w))"

definition Mod1_Validate30V :: "u32 \<Rightarrow> Mod1Mode \<Rightarrow> bool \<times> Mod1Mode" where
  "Mod1_Validate30V now w =
     (let CONFIRM_I = (1 / 2 :: real);
          VALIDATE_MS = (500 :: u32);
          Iraw = call_correctedIrms w;
          (I, w) = call_IavgS_update Iraw w
      in if I \<ge> CONFIRM_I then (False, w\<lparr>m1_etchStart := now, m1_st := M1_RelayHold\<rparr>)
         else if now - m1_validateStart w \<ge> VALIDATE_MS then
           let w = digitalWrite relayPin1 HIGH w;
               w = digitalWrite relayPin2 HIGH w;
               w = call_setSpeedMmPerSec 3 w
           in (False, w\<lparr>m1_st := M1_MovingDownDetect\<rparr>)
         else (False, w))"

definition Mod1_RelayHold :: "u32 \<Rightarrow> Mod1Mode \<Rightarrow> bool \<times> Mod1Mode" where
  "Mod1_RelayHold now w =
     (let Iraw = call_correctedIrms w;
          (I, w) = call_Iavg_update Iraw w
      in if now - m1_etchStart w < 2000 then (False, w)
         else
           let w = call_setSpeedMmPerSec (- p1_retractSpeed_mm_s (mod1 (gParams w))) w
           in (False, w\<lparr>m1_st := M1_Etching\<rparr>))"

definition Mod1_Etching :: "u32 \<Rightarrow> Mod1Mode \<Rightarrow> bool \<times> Mod1Mode" where
  "Mod1_Etching now w =
     (let Iraw = call_correctedIrms w;
          (I, w) = call_Iavg_update Iraw w
      in if I < p1_etchingThreshold_A (mod1 (gParams w)) then
           let w = call_setSpeedMmPerSec 0 w;
               w = digitalWrite relayPin1 HIGH w;
               w = digitalWrite relayPin2 HIGH w;
               w = call_moveRelativeMm (- 30) 3 w
           in (False, w\<lparr>m1_st := M1_FinalLift\<rparr>)
         else (False, w))"

definition Mod1_FinalLift :: "u32 \<Rightarrow> Mod1Mode \<Rightarrow> bool \<times> Mod1Mode" where
  "Mod1_FinalLift now w =
     (if \<not> isBusy (stepper w) then
        let w = call_setEnabled False w in (True, w\<lparr>m1_st := M1_Done\<rparr>)
      else (False, w))"

text \<open>
  \<open>step\<close>: \<open>us\<close> is the value of \<open>micros()\<close> read by the stepper, \<open>now\<close> the value of
  \<open>millis()\<close>.
\<close>

definition Mod1Mode_step :: "u32 \<Rightarrow> u32 \<Rightarrow> Mod1Mode \<Rightarrow> bool \<times> Mod1Mode" where
  "Mod1Mode_step us now w0 =
     (let w = call_update us w0;
          z = positionMm (stepper w)
      in if z \<le> Z_MIN \<or> z \<ge> Z_MAX then Mod1_abort w
         else if m1_st w = M1_MovingDownDetect then Mod1_MovingDownDetect now w
         else if m1_st w = M1_Wait1 then Mod1_Wait1 now w
         else if m1_st w = M1_MoveDown1 then Mod1_MoveDown1 now w
         else if m1_st w = M1_Wait2 then Mod1_Wait2 now w
         else if m1_st w = M1_Validate30V then Mod1_Validate30V now w
         else if m1_st w = M1_RelayHold then Mod1_RelayHold now w
         else if m1_st w = M1_Etching then Mod1_Etching now w
         else if m1_st w = M1_FinalLift then Mod1_FinalLift now w
         else (m1_st w = M1_Done, w))"

section \<open>Mod2Mode (Modes.cpp)\<close>

datatype Mod2State =
    M2_MovingDownDetect | M2_Wait1 | M2_MoveDown1 | M2_Wait2 | M2_Validate30V
  | M2_RelayHold | M2_Wait3 | M2_MoveDown2 | M2_Wait4 | M2_RelayPulse | M2_FinalLift | M2_Done

record Mod2Mode = World +
  m2_threshold :: real
  m2_st :: Mod2State
  m2_waitStart :: u32
  m2_validateStart :: u32
  m2_pulseStart :: u32
  m2_etchStart :: u32
  m2_relayOn :: bool
  m2_pulseCount :: u8

definition Mod2Mode_begin :: "Mod2Mode \<Rightarrow> Mod2Mode" where
  "Mod2Mode_begin w =
     (let w = digitalWrite relayPin1 HIGH w;
          w = digitalWrite relayPin2 HIGH w;
          w = w\<lparr>m2_st := M2_MovingDownDetect, m2_relayOn := False, m2_pulseCount := 0,
                m2_etchStart := 0\<rparr>;
          w = call_enable True w;
          w = call_setSpeedMmPerSec 3 w
      in call_setEnabled True w)"

definition Mod2_abort :: "Mod2Mode \<Rightarrow> bool \<times> Mod2Mode" where
  "Mod2_abort w =
     (let w = call_setSpeedMmPerSec 0 w;
          w = call_setEnabled False w;
          w = digitalWrite relayPin1 HIGH w;
          w = digitalWrite relayPin2 HIGH w
      in (True, w\<lparr>m2_st := M2_Done\<rparr>))"

definition Mod2_MovingDownDetect :: "u32 \<Rightarrow> Mod2Mode \<Rightarrow> bool \<times> Mod2Mode" where
  "Mod2_MovingDownDetect now w =
     (let I = call_correctedIrms w
      in if I \<ge> m2_threshold w then
           let w = call_setSpeedMmPerSec 0 w;
               w = digitalWrite relayPin1 HIGH w;
               w = digitalWrite relayPin2 HIGH w
           in (False, w\<lparr>m2_waitStart := now, m2_st := M2_Wait1\<rparr>)
         else (False, w))"

definition Mod2_Wait1 :: "u32 \<Rightarrow> Mod2Mode \<Rightarrow> bool \<times> Mod2Mode" where
  "Mod2_Wait1 now w =
     (if now - m2_waitStart w \<ge> 1000 then
        let w = call_moveRelativeMm (p2_plungeAfterSurface_mm (mod2 (gParams w))) 1 w
        in (False, w\<lparr>m2_st := M2_MoveDown1\<rparr>)
      else (False, w))"

definition Mod2_MoveDown1 :: "u32 \<Rightarrow> Mod2Mode \<Rightarrow> bool \<times> Mod2Mode" where
  "Mod2_MoveDown1 now w =
     (if \<not> isBusy (stepper w) then (False, w\<lparr>m2_waitStart := now, m2_st := M2_Wait2\<rparr>)
      else (False, w))"

definition Mod2_Wait2 :: "u32 \<Rightarrow> Mod2Mode \<Rightarrow> bool \<times> Mod2Mode" where
  "Mod2_Wait2 now w =
     (if now - m2_waitStart w \<ge> 1000 then
        let w = digitalWrite relayPin1 HIGH w;
            w = digitalWrite relayPin2 LOW w;
            w = w\<lparr>m2_validateStart := now\<rparr>;
            w = call_Iavg_reset w;
            w = call_IavgS_reset w
        in (False, w\<lparr>m2_st := M2_Validate30V\<rparr>)
      else (False, w))"

definition Mod2_Validate30V :: "u32 \<Rightarrow> Mod2Mode \<Rightarrow> bool \<times> Mod2Mode" where
  "Mod2_Validate30V now w =
     (let CONFIRM_I = (1 / 2 :: real);
          VALIDATE_MS = (500 :: u32);
          Iraw = call_correctedIrms w;
          (I, w) = call_IavgS_update Iraw w
      in if I \<ge> CONFIRM_I then (False, w\<lparr>m2_etchStart := now, m2_st := M2_RelayHold\<rparr>)
         else if now - m2_validateStart w \<ge> VALIDATE_MS then
           let w = digitalWrite relayPin1 HIGH w;
               w = digitalWrite relayPin2 HIGH w;
               w = call_setSpeedMmPerSec 3 w
           in (False, w\<lparr>m2_st := M2_MovingDownDetect\<rparr>)
         else (False, w))"

text \<open>
  The condition of the hold block is written \<open>I <= I <= gParams.mod2.etchingThreshold_A\<close>.
  C++ reads it as \<open>(I <= I) <= threshold\<close>: the inner comparison yields a \<open>bool\<close>,
  which is converted to the \<open>float\<close> 1 or 0 and compared with the threshold.
\<close>

definition hold_condition :: "real \<Rightarrow> real \<Rightarrow> bool" where
  "hold_condition I thr = ((if I \<le> I then (1 :: real) else 0) \<le> thr)"

definition Mod2_RelayHold :: "u32 \<Rightarrow> Mod2Mode \<Rightarrow> bool \<times> Mod2Mode" where
  "Mod2_RelayHold now w =
     (let Iraw = call_correctedIrms w;
          (I, w) = call_Iavg_update Iraw w
      in if now - m2_etchStart w < 2000 then (False, w)
         else if hold_condition I (p2_etchingThreshold_A (mod2 (gParams w))) then
           let w = digitalWrite relayPin1 HIGH w;
               w = digitalWrite relayPin2 HIGH w
           in (False, w\<lparr>m2_waitStart := now, m2_st := M2_Wait3\<rparr>)
         else (False, w))"

definition Mod2_Wait3 :: "u32 \<Rightarrow> Mod2Mode \<Rightarrow> bool \<times> Mod2Mode" where
  "Mod2_Wait3 now w =
     (if now - m2_waitStart w \<ge> 1000 then
        let w = call_moveRelativeMm (p2_plungeAfterEtch_mm (mod2 (gParams w))) 1 w
        in (False, w\<lparr>m2_st := M2_MoveDown2\<rparr>)
      else (False, w))"

definition Mod2_MoveDown2 :: "u32 \<Rightarrow> Mod2Mode \<Rightarrow> bool \<times> Mod2Mode" where
  "Mod2_MoveDown2 now w =
     (if \<not> isBusy (stepper w) then (False, w\<lparr>m2_waitStart := now, m2_st := M2_Wait4\<rparr>)
      else (False, w))"

definition Mod2_Wait4 :: "u32 \<Rightarrow> Mod2Mode \<Rightarrow> bool \<times> Mod2Mode" where
  "Mod2_Wait4 now w =
     (if now - m2_waitStart w \<ge> 1000 then
        let w = call_setEnabled False w;
            w = w\<lparr>m2_pulseStart := now, m2_relayOn := True, m2_pulseCount := 0\<rparr>;
            w = digitalWrite relayPin1 LOW w;
            w = digitalWrite relayPin2 HIGH w
        in (False, w\<lparr>m2_st := M2_RelayPulse\<rparr>)
      else (False, w))"

text \<open>
  In the pulse block the elapsed milliseconds (\<open>unsigned long\<close>) are compared with
  \<open>pulseOn_s\<close> and \<open>pulseOff_s\<close> (\<open>float\<close>), and the 8-bit counter \<open>pulseCount_\<close>,
  after its increment, with the \<open>int\<close> parameter \<open>pulseCount\<close>.
\<close>

definition Mod2_RelayPulse :: "u32 \<Rightarrow> Mod2Mode \<Rightarrow> bool \<times> Mod2Mode" where
  "Mod2_RelayPulse now w =
     (if m2_relayOn w then
        (if real (unat (now - m2_pulseStart w)) \<ge> p2_pulseOn_s (mod2 (gParams w)) then
           let w = digitalWrite relayPin1 HIGH w;
               w = digitalWrite relayPin2 HIGH w
           in (False, w\<lparr>m2_relayOn := False, m2_pulseStart := now\<rparr>)
         else (False, w))
      else
        (if real (unat (now - m2_pulseStart w)) \<ge> p2_pulseOff_s (mod2 (gParams w)) then
           let w = w\<lparr>m2_pulseCount := m2_pulseCount w + 1\<rparr>
           in if uint (m2_pulseCount w) \<ge> p2_pulseCount (mod2 (gParams w)) then
                let w = call_moveRelativeMm (- 30) 3 w
                in (False, w\<lparr>m2_st := M2_FinalLift\<rparr>)
              else
                let w = digitalWrite relayPin1 LOW w;
                    w = digitalWrite relayPin2 HIGH w
                in (False, w\<lparr>m2_relayOn := True, m2_pulseStart := now\<rparr>)
         else (False, w)))"

definition Mod2_FinalLift :: "u32 \<Rightarrow> Mod2Mode \<Rightarrow> bool \<times> Mod2Mode" where
  "Mod2_FinalLift now w =
     (if \<not> isBusy (stepper w) then
        let w = digitalWrite relayPin1 HIGH w;
            w = digitalWrite relayPin2 HIGH w
        in (True, w\<lparr>m2_st := M2_Done\<rparr>)
      else (False, w))"

definition Mod2Mode_step :: "u32 \<Rightarrow> u32 \<Rightarrow> Mod2Mode \<Rightarrow> bool \<times> Mod2Mode" where
  "Mod2Mode_step us now w0 =
     (let w = call_update us w0;
          z = positionMm (stepper w)
      in if z \<le> Z_MIN \<or> z \<ge> Z_MAX then Mod2_abort w
         else if m2_st w = M2_MovingDownDetect then Mod2_MovingDownDetect now w
         else if m2_st w = M2_Wait1 then Mod2_Wait1 now w
         else if m2_st w = M2_MoveDown1 then Mod2_MoveDown1 now w
         else if m2_st w = M2_Wait2 then Mod2_Wait2 now w
         else if m2_st w = M2_Validate30V then Mod2_Validate30V now w
         else if m2_st w = M2_RelayHold then Mod2_RelayHold now w
         else if m2_st w = M2_Wait3 then Mod2_Wait3 now w
         else if m2_st w = M2_MoveDown2 then Mod2_MoveDown2 now w
         else if m2_st w = M2_Wait4 then Mod2_Wait4 now w
         else if m2_st w = M2_RelayPulse then Mod2_RelayPulse now w
         else if m2_st w = M2_FinalLift then Mod2_FinalLift now w
         else (m2_st w = M2_Done, w))"

section \<open>Notions used to state the properties\<close>

text \<open>
  The last \<open>N\<close> fixed-point samples of a sequence, oldest first, padded in front with the
  zeros a \<open>reset(0)\<close> leaves in the buffer, and the relation between the fields of a
  moving average and the samples inserted since that reset.
\<close>

definition window :: "nat \<Rightarrow> int list \<Rightarrow> int list" where
  "window N fx = replicate (N - length fx) 0 @ drop (length fx - N) fx"

definition ma_inv :: "nat \<Rightarrow> int list \<Rightarrow> MovingAverage \<Rightarrow> bool" where
  "ma_inv N fx m \<longleftrightarrow>
     length (ma_buf m) = N \<and> ma_idx m = length fx mod N \<and> ma_filled m = (N \<le> length fx) \<and>
     ma_sum m = sum_list (window N fx) \<and>
     (\<forall>j<N. ma_buf m ! ((length fx + j) mod N) = window N fx ! j)"

text \<open>
  What is assumed of single-precision arithmetic: a product with zero is zero, a quotient
  and the conversion of an integer are within a relative error of \<open>1 / 2 ^ 24\<close> of the exact
  value, and an integer of at most 24 bits is converted exactly.
\<close>

definition single_precision :: "float_ops \<Rightarrow> bool" where
  "single_precision ops \<longleftrightarrow>
     (\<forall>b. fmul ops 0 b = 0) \<and>
     (\<forall>a b. b \<noteq> 0 \<longrightarrow> \<bar>fdiv ops a b - a / b\<bar> \<le> \<bar>a / b\<bar> / 2 ^ 24) \<and>
     (\<forall>i. \<bar>to_float ops i - real_of_int i\<bar> \<le> \<bar>real_of_int i\<bar> / 2 ^ 24) \<and>
     (\<forall>i. \<bar>i\<bar> \<le> 2 ^ 24 \<longrightarrow> to_float ops i = real_of_int i)"

text \<open>
  The fixed-point representation of a scaled sample \<open>p\<close>: \<open>p\<close> rounded to a nearest
  integer and clamped to the \<open>int16_t\<close> range.  \<open>q\<close> is such a value if it lies in the
  range and either is within one half of \<open>p\<close>, or is the bound of the range that \<open>p\<close>
  lies beyond (\<open>fixed_point_of_iff\<close>).
\<close>

definition fixed_point_of :: "real \<Rightarrow> int \<Rightarrow> bool" where
  "fixed_point_of p q \<longleftrightarrow>
     - 32768 \<le> q \<and> q \<le> 32767 \<and>
     (\<bar>real_of_int q - p\<bar> \<le> 1 / 2 \<or> (q = 32767 \<and> 32767 \<le> p) \<or> (q = - 32768 \<and> p \<le> - 32768))"

text \<open>
  The state \<open>update\<close> leaves after storing the fixed-point value \<open>y\<close>, and the
  denominator it then divides by.
\<close>

definition ma_insert :: "nat \<Rightarrow> int \<Rightarrow> MovingAverage \<Rightarrow> MovingAverage" where
  "ma_insert N y m =
     \<lparr>ma_buf = (ma_buf m)[ma_idx m := y],
      ma_idx = (if ma_idx m + 1 \<ge> N then 0 else ma_idx m + 1),
      ma_filled = (if ma_idx m + 1 \<ge> N then True else ma_filled m),
      ma_sum = ma_sum m - ma_buf m ! ma_idx m + y\<rparr>"

definition ma_denom :: "nat \<Rightarrow> MovingAverage \<Rightarrow> int" where
  "ma_denom N m = (let d = (if ma_filled m then int N else int (ma_idx m)) in if d \<le> 0 then 1 else d)"

text \<open>The step period \<open>update\<close> computes from the speed of a driver.\<close>

definition period_us_of :: "StepperDriver \<Rightarrow> u32" where
  "period_us_of s = word_of_int \<lfloor>1000000 / (\<bar>speed_mm_s s\<bar> * stepsPerMm s)\<rfloor>"

text \<open>The completion test of a target move, in the direction of travel.\<close>

definition reached :: "StepperDriver \<Rightarrow> bool" where
  "reached s = (if dir s then pos_steps s \<ge> target_steps s else pos_steps s \<le> target_steps s)"

text \<open>The two timing tests of \<open>CurrentSensor::update\<close> and the sample count at the window test.\<close>

definition sample_due :: "u32 \<Rightarrow> CurrentSensor \<Rightarrow> bool" where
  "sample_due now s = (0 \<le> sint (now - nextSampleTime s))"

definition window_elapsed :: "u32 \<Rightarrow> CurrentSensor \<Rightarrow> bool" where
  "window_elapsed now s = (sint (sampleWindow_us s) \<le> sint (now - windowStart s))"

definition samples_at_close :: "u32 \<Rightarrow> CurrentSensor \<Rightarrow> u32" where
  "samples_at_close now s = (if sample_due now s then nSamples s + 1 else nSamples s)"

section \<open>Concrete states\<close>

text \<open>
  The stepper as the sketch constructs it; a current sensor with the configuration of the
  sketch, enabled, with no sample in its open window and a last reading of 0.7 A; moving
  averages of 3, 20 and 200 samples.
\<close>

definition stepper0 :: StepperDriver where
  "stepper0 = StepperDriver_new 200 16 8 10"

definition sensor0 :: CurrentSensor where
  "sensor0 = \<lparr>Vref = 5, adcMaxValue = 1023, k_cal = 2545 / 1000, enabled = True,
     sampleWindow_us = 40000, sampleInterval_us = 200, nextSampleTime = 60000,
     windowStart = 0, adcMin = 1023, adcMax = 0, Vpp = 0, Irms = 7 / 10,
     sumV = 0, sumV2 = 0, nSamples = 0\<rparr>"

definition ma3 :: MovingAverage where
  "ma3 = \<lparr>ma_buf = [7, 7, 7], ma_idx = 2, ma_filled = True, ma_sum = 21\<rparr>"

definition ma20 :: MovingAverage where
  "ma20 = \<lparr>ma_buf = replicate 20 0, ma_idx = 0, ma_filled = False, ma_sum = 0\<rparr>"

definition ma200 :: MovingAverage where
  "ma200 = \<lparr>ma_buf = replicate 200 0, ma_idx = 0, ma_filled = False, ma_sum = 0\<rparr>"

text \<open>
  Operations that satisfy the assumptions and are not exact: the product of the
  \<open>float\<close> nearest to 0.0025 with 1000 is 2.5, as in single precision, and every
  quotient is too large by the factor \<open>1 + 1 / 2 ^ 25\<close>.
\<close>

definition sample_ops :: float_ops where
  "sample_ops =
     \<lparr>fmul = (\<lambda>a b. if a = 5368709 / 2147483648 \<and> b = 1000 then 5 / 2 else a * b),
      fdiv = (\<lambda>a b. (a / b) * (1 + 1 / 2 ^ 25)),
      to_float = real_of_int\<rparr>"

text \<open>A driver in velocity mode at 1 mm/s whose next step was due at 1000 microseconds.\<close>

definition stepper_moving :: StepperDriver where
  "stepper_moving = stepper0\<lparr>speed_mm_s := 1, motion := Velocity, tNextStep := 1000\<rparr>"

text \<open>A driver one step short of the target of a move in the positive direction.\<close>

definition stepper_arriving :: StepperDriver where
  "stepper_arriving = stepper0\<lparr>speed_mm_s := 1, motion := ToTarget, target_steps := 1\<rparr>"

text \<open>A driver at rest at 10 mm, and one retracting at the speed of etching, one step above 1.5 mm.\<close>

definition stepper_at_10mm :: StepperDriver where
  "stepper_at_10mm = stepper0\<lparr>pos_steps := 4000\<rparr>"

definition stepper_retracting :: StepperDriver where
  "stepper_retracting =
     stepper0\<lparr>pos_steps := 601, speed_mm_s := - (15 / 1000), dir := False, motion := Velocity\<rparr>"

section \<open>Notions used to state the properties of the modes\<close>

text \<open>
  What the soft-limit block leaves behind: the motion stopped, the sensor disabled, both
  relay outputs \<open>HIGH\<close>, exactly these three effects issued, and the moving averages
  untouched.
\<close>

definition safe_stop :: "'a World_scheme \<Rightarrow> 'a World_scheme \<Rightarrow> bool" where
  "safe_stop w w' \<longleftrightarrow>
     speed_mm_s (stepper w') = 0 \<and> motion (stepper w') = Idle \<and>
     \<not> enabled (current w') \<and>
     pins w' relayPin1 = HIGH \<and> pins w' relayPin2 = HIGH \<and>
     trace w' = trace w @ [CallSetSpeedMmPerSec 0, DigitalWrite relayPin1 HIGH,
                           DigitalWrite relayPin2 HIGH] \<and>
     Iavg w' = Iavg w \<and> IavgS w' = IavgS w"

text \<open>The time a list of effects blocks the caller, in microseconds.\<close>

fun blocking_us :: "Effect \<Rightarrow> nat" where
  "blocking_us (DelayMicroseconds n) = n"
| "blocking_us (Delay n) = 1000 * n"
| "blocking_us (DigitalWrite p l) = 0"
| "blocking_us (CallSetSpeedMmPerSec v) = 0"
| "blocking_us (CallMoveRelativeMm dx v) = 0"

definition blocked_us :: "Effect list \<Rightarrow> nat" where
  "blocked_us evs = sum_list (map blocking_us evs)"

definition same_blocked :: "'a World_scheme \<Rightarrow> 'a World_scheme \<Rightarrow> bool" where
  "same_blocked w w' \<longleftrightarrow>
     blocked_us (trace w') = blocked_us (trace w) \<and>
     blocked_us (hw (stepper w')) = blocked_us (hw (stepper w))"

text \<open>
  The blocking delay \<open>HomeMode::step\<close> issues itself: \<open>delay(200)\<close> in the call that finds
  the limit switch pressed, \<open>delay(2000)\<close> in the call that reports completion.
\<close>

definition home_delay_us :: "Level \<Rightarrow> HomeMode \<Rightarrow> nat" where
  "home_delay_us limit h =
     (if \<not> homed h \<and> limit = LOW then 200000
      else if homed h \<and> \<not> baselineMeasuring h \<and> baselineDone h then 2000000
      else 0)"

text \<open>
  A run of MOD2 under the supervisor: \<open>ModeController::loop\<close> calls \<open>step()\<close> once per
  iteration and stops the mode when it returns true.  Each tick gives the values of
  \<open>micros()\<close> and \<open>millis()\<close> the call reads.
\<close>

fun Mod2Mode_run :: "(u32 \<times> u32) list \<Rightarrow> Mod2Mode \<Rightarrow> bool \<times> Mod2Mode" where
  "Mod2Mode_run [] w = (False, w)"
| "Mod2Mode_run (t # ts) w =
     (let r = Mod2Mode_step (fst t) (snd t) w in if fst r then r else Mod2Mode_run ts (snd r))"

text \<open>
  The secondary 9 V is switched on by \<open>digitalWrite(relayPin1_, LOW)\<close>, which MOD2 issues
  nowhere else; the final lift is \<open>moveRelativeMm(-30.0f, 3.0f)\<close>.
\<close>

definition count_9V_on :: "Effect list \<Rightarrow> nat" where
  "count_9V_on evs = length (filter (\<lambda>e. e = DigitalWrite relayPin1 LOW) evs)"

definition count_lifts :: "Effect list \<Rightarrow> nat" where
  "count_lifts evs = length (filter (\<lambda>e. e = CallMoveRelativeMm (- 30) 3) evs)"

text \<open>Ticks one second apart: \<open>n\<close> cycles of two ticks after time \<open>t\<close>.\<close>

fun pulse_ticks :: "nat \<Rightarrow> u32 \<Rightarrow> (u32 \<times> u32) list" where
  "pulse_ticks 0 t = []"
| "pulse_ticks (Suc n) t = (0, t + 1000) # (0, t + 2000) # pulse_ticks n (t + 2000)"

text \<open>
  The pulse block with the relay flag \<open>on\<close>, the stepper at rest inside the soft limits,
  a pulse count above 255 and pulse durations of at most 1000.
\<close>

definition pulse_inv :: "bool \<Rightarrow> Mod2Mode \<Rightarrow> bool" where
  "pulse_inv on w \<longleftrightarrow>
     m2_st w = M2_RelayPulse \<and> m2_relayOn w = on \<and>
     motion (stepper w) = Idle \<and> speed_mm_s (stepper w) = 0 \<and>
     Z_MIN < positionMm (stepper w) \<and> positionMm (stepper w) < Z_MAX \<and>
     255 < p2_pulseCount (mod2 (gParams w)) \<and>
     p2_pulseOn_s (mod2 (gParams w)) \<le> 1000 \<and> p2_pulseOff_s (mod2 (gParams w)) \<le> 1000"

text \<open>
  The stepper at rest strictly inside the soft limits, both relay outputs \<open>HIGH\<close>, and
  the bookkeeping of a MOD2 run that started with \<open>c\<close> switch-ons and \<open>l\<close> lifts in the
  trace: what the trace holds in each state, for a pulse count \<open>P\<close>.
\<close>

definition at_rest :: "StepperDriver \<Rightarrow> bool" where
  "at_rest s \<longleftrightarrow> motion s = Idle \<and> speed_mm_s s = 0 \<and>
     Z_MIN < positionMm s \<and> positionMm s < Z_MAX"

definition relays_off :: "'a World_scheme \<Rightarrow> bool" where
  "relays_off w \<longleftrightarrow> pins w relayPin1 = HIGH \<and> pins w relayPin2 = HIGH"

definition Mod2_inv :: "int \<Rightarrow> nat \<Rightarrow> nat \<Rightarrow> Mod2Mode \<Rightarrow> bool" where
  "Mod2_inv P c l w \<longleftrightarrow>
     p2_pulseCount (mod2 (gParams w)) = P \<and>
     (case m2_st w of
        M2_MoveDown2 \<Rightarrow>
          count_9V_on (trace w) = c \<and> count_lifts (trace w) = l \<and>
          (motion (stepper w) = ToTarget \<or>
           (motion (stepper w) = Idle \<and> speed_mm_s (stepper w) = 0))
      | M2_Wait4 \<Rightarrow>
          count_9V_on (trace w) = c \<and> count_lifts (trace w) = l \<and> at_rest (stepper w)
      | M2_RelayPulse \<Rightarrow>
          count_9V_on (trace w) = c + nat (uint (m2_pulseCount w)) + 1 \<and>
          count_lifts (trace w) = l \<and> at_rest (stepper w) \<and>
          uint (m2_pulseCount w) < P \<and> (m2_relayOn w \<or> relays_off w)
      | M2_FinalLift \<Rightarrow>
          count_9V_on (trace w) = c + nat P \<and> count_lifts (trace w) = l + 1 \<and> relays_off w
      | M2_Done \<Rightarrow>
          (count_9V_on (trace w) = c \<and> count_lifts (trace w) = l) \<or>
          (count_9V_on (trace w) = c + nat P \<and> count_lifts (trace w) = l + 1 \<and> relays_off w)
      | _ \<Rightarrow> count_9V_on (trace w) = c \<and> count_lifts (trace w) = l)"

section \<open>Concrete states of the modes\<close>

text \<open>
  MOD2 in its hold block with the default parameters, 30 V on, a corrected current of
  0.01 A and freshly reset averages.
\<close>

definition mod2_hold :: Mod2Mode where
  "mod2_hold =
     \<lparr>stepper = stepper_at_10mm, current = sensor0\<lparr>Irms := 1 / 100\<rparr>, baselineCurrent = 0,
      gParams = gParams_default, Iavg = ma200, IavgS = ma20,
      pins = (\<lambda>_. HIGH)(relayPin2 := LOW), trace = [],
      m2_threshold = 5 / 100, m2_st = M2_RelayHold, m2_waitStart = 0, m2_validateStart = 0,
      m2_pulseStart = 0, m2_etchStart = 0, m2_relayOn = False, m2_pulseCount = 0\<rparr>"

text \<open>MOD2 waiting to start the pulse train, with the pulse count set to 300 in the editor.\<close>

definition mod2_wait4 :: Mod2Mode where
  "mod2_wait4 =
     \<lparr>stepper = stepper_at_10mm, current = sensor0, baselineCurrent = 0,
      gParams = gParams_default\<lparr>mod2 := (mod2 gParams_default)\<lparr>p2_pulseCount := 300\<rparr>\<rparr>,
      Iavg = ma200, IavgS = ma20,
      pins = (\<lambda>_. HIGH), trace = [],
      m2_threshold = 5 / 100, m2_st = M2_Wait4, m2_waitStart = 0, m2_validateStart = 0,
      m2_pulseStart = 0, m2_etchStart = 0, m2_relayOn = False, m2_pulseCount = 0\<rparr>"

text \<open>MOD1 etching one step above the lower limit; MOD2 pulsing, at rest at 75 mm.\<close>

definition mod1_etching_low :: Mod1Mode where
  "mod1_etching_low =
     \<lparr>stepper = stepper_retracting, current = sensor0, baselineCurrent = 0,
      gParams = gParams_default, Iavg = ma200, IavgS = ma20,
      pins = (\<lambda>_. HIGH)(relayPin2 := LOW), trace = [],
      m1_threshold = 5 / 100, m1_etchStart = 0, m1_st = M1_Etching, m1_waitStart = 0,
      m1_validateStart = 0, m1_pulseCount = 0, m1_pulseStart = 0, m1_relayOn = False,
      m1_stopTime = 0, m1_bumpedUp1mm = False\<rparr>"

definition mod2_pulsing_high :: Mod2Mode where
  "mod2_pulsing_high =
     \<lparr>stepper = stepper0\<lparr>pos_steps := 30000\<rparr>, current = sensor0, baselineCurrent = 0,
      gParams = gParams_default, Iavg = ma200, IavgS = ma20,
      pins = (\<lambda>_. HIGH)(relayPin1 := LOW), trace = [],
      m2_threshold = 5 / 100, m2_st = M2_RelayPulse, m2_waitStart = 0, m2_validateStart = 0,
      m2_pulseStart = 0, m2_etchStart = 0, m2_relayOn = True, m2_pulseCount = 2\<rparr>"

text \<open>HOME measuring the baseline since time 1000, and HOME with the baseline done.\<close>

definition home_measuring :: HomeMode where
  "home_measuring =
     \<lparr>stepper = stepper0\<lparr>pos_steps := 12000\<rparr>, current = sensor0, baselineCurrent = 0,
      gParams = gParams_default, Iavg = ma200, IavgS = ma20,
      pins = (\<lambda>_. HIGH), trace = [],
      homed = True, target = 30, baselineMeasuring = True, baselineDone = False,
      baselineStart = 1000, baselineSum = 0, baselineCount = 0\<rparr>"

definition home_done :: HomeMode where
  "home_done = home_measuring\<lparr>baselineMeasuring := False, baselineDone := True\<rparr>"

section \<open>MovingAverage: the window invariant\<close>

lemma length_window: "length (window N fx) = N"
  by (simp add: window_def)

lemma window_snoc: "0 < N \<Longrightarrow> window N (fx @ [y]) = tl (window N fx) @ [y]"
proof (cases "length fx < N")
  case True
  assume "0 < N"
  from True obtain d where d: "N - length fx = Suc d" by (metis Suc_diff_Suc)
  then have "N - Suc (length fx) = d" by simp
  with True d show ?thesis by (simp add: window_def)
next
  case False
  assume "0 < N"
  with False show ?thesis by (simp add: window_def drop_Suc tl_drop Suc_diff_le)
qed

lemma sum_list_window: "sum_list (window N fx) = sum_list (drop (length fx - N) fx)"
  by (simp add: window_def sum_list_replicate)

lemma reset_fill_gen:
  "k \<le> length b \<Longrightarrow> reset_fill k x0 (b, s) = (replicate k x0 @ drop k b, s + int k * x0)"
proof (induction k)
  case 0
  then show ?case by (simp add: reset_fill_def)
next
  case (Suc k)
  then have "reset_fill k x0 (b, s) = (replicate k x0 @ drop k b, s + int k * x0)" by simp
  moreover have "(replicate k x0 @ drop k b)[k := x0] = replicate (Suc k) x0 @ drop (Suc k) b"
    using Suc.prems
    by (simp add: list_update_append Cons_nth_drop_Suc [symmetric] replicate_append_same)
  ultimately show ?case
    by (simp add: reset_fill_def algebra_simps)
qed

lemma MovingAverage_reset_eq:
  assumes "length (ma_buf m) = N"
  shows "MovingAverage_reset N SCALE x0A m =
     \<lparr>ma_buf = replicate N (toFixed SCALE x0A), ma_idx = 0,
      ma_filled = (toFixed SCALE x0A \<noteq> 0), ma_sum = int N * toFixed SCALE x0A\<rparr>"
  using assms reset_fill_gen [of N "ma_buf m" "toFixed SCALE x0A" 0]
  by (simp add: MovingAverage_reset_def Let_def)

lemma toFixed_0: "toFixed SCALE 0 = 0"
  by (simp add: toFixed_def lroundf_def)

lemma ma_inv_reset0:
  assumes "length (ma_buf m) = N" "0 < N"
  shows "ma_inv N [] (MovingAverage_reset N SCALE 0 m)"
  using assms by (simp add: MovingAverage_reset_eq toFixed_0 ma_inv_def window_def sum_list_replicate)

lemma hd_window_sum:
  assumes "0 < N"
  shows "sum_list (tl (window N fx) @ [y]) = sum_list (window N fx) - window N fx ! 0 + y"
proof -
  from assms have "window N fx \<noteq> []" using length_window [of N fx] by auto
  then obtain a w where "window N fx = a # w" by (cases "window N fx") auto
  then show ?thesis by simp
qed

lemma window_sum_snoc:
  "0 < N \<Longrightarrow>
     sum_list (window N (fx @ [y])) = sum_list (window N fx) - window N fx ! 0 + y"
  by (simp only: window_snoc hd_window_sum)

lemma ma_inv_insert:
  assumes inv: "ma_inv N fx m" and N: "0 < N"
  shows "ma_inv N (fx @ [y]) (ma_insert N y m)"
proof -
  let ?k = "length fx" and ?y = y
  let ?w = "window N fx"
  from inv have len: "length (ma_buf m) = N" and idx: "ma_idx m = ?k mod N"
    and fl: "ma_filled m = (N \<le> ?k)" and sm: "ma_sum m = sum_list ?w"
    and bf: "\<And>j. j < N \<Longrightarrow> ma_buf m ! ((?k + j) mod N) = ?w ! j"
    by (simp_all add: ma_inv_def)
  from N have idxlt: "?k mod N < N" by simp
  have ev: "ma_buf m ! (?k mod N) = ?w ! 0" using bf [of 0] N by simp
  have i': "(if ?k mod N + 1 \<ge> N then 0 else ?k mod N + 1) = Suc ?k mod N"
  proof -
    have "Suc (?k mod N) \<le> N" using idxlt by arith
    then show ?thesis by (auto simp add: mod_Suc)
  qed
  have f': "(if ?k mod N + 1 \<ge> N then True else (N \<le> ?k)) = (N \<le> Suc ?k)"
  proof (cases "N \<le> ?k")
    case True then show ?thesis by simp
  next
    case False
    then have "?k mod N = ?k" by simp
    with False show ?thesis by auto
  qed
  have s': "ma_sum m - ma_buf m ! ma_idx m + ?y = sum_list (window N (fx @ [?y]))"
    using N by (simp add: idx ev sm window_sum_snoc)
  have b': "(ma_buf m)[?k mod N := ?y] ! ((Suc ?k + j) mod N) = window N (fx @ [?y]) ! j"
    if j: "j < N" for j
  proof (cases "Suc j = N")
    case True
    then have "(Suc ?k + j) mod N = ?k mod N" by (metis add_Suc add_Suc_right mod_add_self2)
    moreover have "window N (fx @ [?y]) ! j = ?y"
    proof -
      have "length (tl (window N fx)) = j" using True length_window [of N fx] by simp
      then show ?thesis using N by (simp add: window_snoc nth_append)
    qed
    ultimately show ?thesis using len idxlt by simp
  next
    case False
    with j have j1: "Suc j < N" by simp
    have ne: "(Suc ?k + j) mod N \<noteq> ?k mod N"
    proof
      assume "(Suc ?k + j) mod N = ?k mod N"
      moreover have "(?k mod N + Suc j) mod N = (?k + Suc j) mod N" by (rule mod_add_left_eq)
      ultimately have a: "(?k mod N + Suc j) mod N = ?k mod N" by simp
      show False
      proof (cases "?k mod N + Suc j < N")
        case True
        with a show False by simp
      next
        case False
        then have "(?k mod N + Suc j) mod N = (?k mod N + Suc j - N) mod N"
          by (simp add: le_mod_geq)
        also have "\<dots> = ?k mod N + Suc j - N"
        proof (rule mod_less)
          show "?k mod N + Suc j - N < N" using idxlt j1 by arith
        qed
        finally show False using a False j1 by simp
      qed
    qed
    have "window N (fx @ [?y]) ! j = ?w ! Suc j"
    proof -
      have "j < length (tl ?w)" using j1 length_window [of N fx] by simp
      then show ?thesis using N by (simp add: window_snoc nth_append nth_tl)
    qed
    moreover have "ma_buf m ! ((Suc ?k + j) mod N) = ?w ! Suc j"
      using bf [OF j1] by simp
    ultimately show ?thesis using ne by simp
  qed
  show ?thesis
    unfolding ma_inv_def ma_insert_def
    using len i' f' s' b' by (auto simp add: idx fl split: if_splits)
qed


lemma update_state: "snd (MovingAverage_update N SCALE x m) = ma_insert N (toFixed SCALE x) m"
  by (simp add: MovingAverage_update_def ma_insert_def Let_def)

lemma ma_inv_update:
  assumes inv: "ma_inv N fx m" and N: "0 < N"
  shows "ma_inv N (fx @ [toFixed SCALE x]) (snd (MovingAverage_update N SCALE x m))"
  using ma_inv_insert [OF inv N] by (simp add: update_state)

lemma MovingAverage_update_value:
  assumes inv: "ma_inv N fx m" and N: "0 < N"
  shows "fst (MovingAverage_update N SCALE x m) =
     (real_of_int (sum_list (drop (Suc (length fx) - N) (fx @ [toFixed SCALE x]))) /
        real (min N (Suc (length fx)))) / real_of_int SCALE"
proof -
  let ?k = "length fx" and ?y = "toFixed SCALE x"
  from inv have idx: "ma_idx m = ?k mod N"
    and fl: "ma_filled m = (N \<le> ?k)" and sm: "ma_sum m = sum_list (window N fx)"
    and ev: "ma_buf m ! (?k mod N) = window N fx ! 0"
    using N by (auto simp add: ma_inv_def)
  have "ma_sum m - ma_buf m ! ma_idx m + ?y = sum_list (window N (fx @ [?y]))"
    using N by (simp add: idx ev sm window_sum_snoc)
  also have "\<dots> = sum_list (drop (Suc ?k - N) (fx @ [?y]))"
    by (simp only: sum_list_window) simp
  finally have s': "ma_sum m - ma_buf m ! ma_idx m + ?y =
      sum_list (drop (Suc ?k - N) (fx @ [?y]))" .
  show ?thesis
  proof (cases "N \<le> Suc ?k")
    case True
    have "(if ?k mod N + 1 \<ge> N then True else (N \<le> ?k))"
    proof (cases "N \<le> ?k")
      case True then show ?thesis by simp
    next
      case False
      then have "?k mod N = ?k" by simp
      with False True show ?thesis by auto
    qed
    then show ?thesis
      unfolding MovingAverage_update_def Let_def using True N s'
      by (auto simp add: idx fl min_def)
  next
    case False
    then have km: "?k mod N = ?k" by simp
    show ?thesis
      unfolding MovingAverage_update_def Let_def using False N s'
      by (simp add: idx fl km min_def)
  qed
qed

lemma MovingAverage_run_snoc:
  "MovingAverage_run N SCALE (xs @ [x]) rm =
     MovingAverage_update N SCALE x (snd (MovingAverage_run N SCALE xs rm))"
  by (induction xs arbitrary: rm) simp_all

lemma ma_inv_run:
  assumes "ma_inv N [] m" "0 < N"
  shows "ma_inv N (map (toFixed SCALE) xs) (snd (MovingAverage_run N SCALE xs (r, m)))"
proof (induction xs rule: rev_induct)
  case Nil
  from assms show ?case by simp
next
  case (snoc x xs)
  from ma_inv_update [OF snoc.IH assms(2), of SCALE x] show ?case
    by (simp add: MovingAverage_run_snoc)
qed

lemma MovingAverage_run_value:
  assumes "ma_inv N [] m" "0 < N" "xs \<noteq> []"
  shows "fst (MovingAverage_run N SCALE xs (r, m)) =
     (real_of_int (sum_list (drop (length xs - min N (length xs)) (map (toFixed SCALE) xs))) /
        real (min N (length xs))) / real_of_int SCALE"
proof -
  from assms(3) obtain ys y where xs: "xs = ys @ [y]" by (cases xs rule: rev_cases) auto
  have "length ys + 1 - min N (length ys + 1) = Suc (length ys) - N" by (simp add: min_def)
  with MovingAverage_update_value [OF ma_inv_run [OF assms(1,2), of SCALE ys r] assms(2), of SCALE y]
  show ?thesis by (simp add: xs MovingAverage_run_snoc)
qed

subsection \<open>The returned value in single precision\<close>

lemma update_fp_state:
  "snd (MovingAverage_update_fp ops N SCALE x m) = ma_insert N (toFixed_fp ops SCALE x) m"
  by (simp add: MovingAverage_update_fp_def ma_insert_def Let_def)

lemma update_fp_value:
  "fst (MovingAverage_update_fp ops N SCALE x m) =
     fdiv ops (fdiv ops (to_float ops (ma_sum (ma_insert N (toFixed_fp ops SCALE x) m)))
                        (to_float ops (ma_denom N (ma_insert N (toFixed_fp ops SCALE x) m))))
              (to_float ops SCALE)"
  by (simp add: MovingAverage_update_fp_def ma_insert_def ma_denom_def Let_def)

lemma ma_inv_sum:
  "ma_inv N fx m \<Longrightarrow> ma_sum m = sum_list (drop (length fx - min N (length fx)) fx)"
proof -
  assume "ma_inv N fx m"
  then have "ma_sum m = sum_list (window N fx)" by (simp add: ma_inv_def)
  moreover have "length fx - min N (length fx) = length fx - N" by (simp add: min_def)
  ultimately show ?thesis by (simp add: sum_list_window)
qed

lemma ma_inv_denom:
  assumes "ma_inv N fx m" "0 < N" "fx \<noteq> []"
  shows "ma_denom N m = int (min N (length fx))"
proof (cases "N \<le> length fx")
  case True
  with assms show ?thesis by (simp add: ma_inv_def ma_denom_def min_def)
next
  case False
  then have "length fx mod N = length fx" by simp
  with False assms show ?thesis by (simp add: ma_inv_def ma_denom_def min_def)
qed


lemma lroundf_near: "\<bar>real_of_int (lroundf y) - y\<bar> \<le> 1 / 2"
proof (cases "0 \<le> y")
  case True
  then have e: "lroundf y = \<lfloor>y + 1 / 2\<rfloor>" by (simp add: lroundf_def)
  have "real_of_int \<lfloor>y + 1 / 2\<rfloor> \<le> y + 1 / 2" "y + 1 / 2 < real_of_int \<lfloor>y + 1 / 2\<rfloor> + 1"
    by linarith+
  then show ?thesis unfolding e by linarith
next
  case False
  then have e: "lroundf y = - \<lfloor>- y + 1 / 2\<rfloor>" by (simp add: lroundf_def)
  have "real_of_int \<lfloor>- y + 1 / 2\<rfloor> \<le> - y + 1 / 2" "- y + 1 / 2 < real_of_int \<lfloor>- y + 1 / 2\<rfloor> + 1"
    by linarith+
  then show ?thesis unfolding e of_int_minus by linarith
qed

lemma lroundf_of_int: "lroundf (real_of_int n) = n"
proof -
  have "\<bar>real_of_int (lroundf (real_of_int n)) - real_of_int n\<bar> \<le> 1 / 2" by (rule lroundf_near)
  then have "\<bar>real_of_int (lroundf (real_of_int n) - n)\<bar> < 1" by simp
  then have "\<bar>lroundf (real_of_int n) - n\<bar> < 1" by linarith
  then show ?thesis by simp
qed

lemma toFixed_fp_cases:
  "toFixed_fp ops SCALE x =
     (if fmul ops x (to_float ops SCALE) > 32767 then 32767
      else if fmul ops x (to_float ops SCALE) < - 32768 then - 32768
      else lroundf (fmul ops x (to_float ops SCALE)))"
  using lroundf_of_int [of 32767] lroundf_of_int [of "- 32768"]
  by (simp add: toFixed_fp_def Let_def)

lemma lroundf_range:
  "- 32768 \<le> p \<Longrightarrow> p \<le> 32767 \<Longrightarrow> - 32768 \<le> lroundf p \<and> lroundf p \<le> 32767"
  using lroundf_near [of p] by linarith

lemma toFixed_fp_range: "- 32768 \<le> toFixed_fp ops SCALE x \<and> toFixed_fp ops SCALE x \<le> 32767"
  using lroundf_range [of "fmul ops x (to_float ops SCALE)"]
  by (simp add: toFixed_fp_cases)

lemma toFixed_fp_fixed_point:
  "fixed_point_of (fmul ops x (to_float ops SCALE)) (toFixed_fp ops SCALE x)"
  using lroundf_range [of "fmul ops x (to_float ops SCALE)"]
    lroundf_near [of "fmul ops x (to_float ops SCALE)"]
  by (simp add: toFixed_fp_cases fixed_point_of_def)

lemma fixed_point_of_iff:
  "fixed_point_of p q \<longleftrightarrow>
     (\<exists>z. \<bar>real_of_int z - p\<bar> \<le> 1 / 2 \<and> q = max (- 32768) (min 32767 z))"
proof
  assume f: "fixed_point_of p q"
  then consider "\<bar>real_of_int q - p\<bar> \<le> 1 / 2" | "q = 32767" "32767 \<le> p" | "q = - 32768" "p \<le> - 32768"
    by (auto simp add: fixed_point_of_def)
  then show "\<exists>z. \<bar>real_of_int z - p\<bar> \<le> 1 / 2 \<and> q = max (- 32768) (min 32767 z)"
  proof cases
    case 1
    with f show ?thesis by (intro exI [of _ q]) (simp add: fixed_point_of_def)
  next
    case 2
    from 2 lroundf_near [of p] have "32767 \<le> lroundf p" by linarith
    with 2 lroundf_near [of p] show ?thesis by (intro exI [of _ "lroundf p"]) simp
  next
    case 3
    from 3 lroundf_near [of p] have "lroundf p \<le> - 32768" by linarith
    with 3 lroundf_near [of p] show ?thesis by (intro exI [of _ "lroundf p"]) simp
  qed
next
  assume "\<exists>z. \<bar>real_of_int z - p\<bar> \<le> 1 / 2 \<and> q = max (- 32768) (min 32767 z)"
  then obtain z where z: "\<bar>real_of_int z - p\<bar> \<le> 1 / 2" "q = max (- 32768) (min 32767 z)"
    by blast
  consider "32767 \<le> z" | "z \<le> - 32768" | "- 32768 < z" "z < 32767" by linarith
  then show "fixed_point_of p q"
  proof cases
    case 1
    then have "(32767 :: real) \<le> real_of_int z" by simp
    with z(1) have "\<bar>32767 - p\<bar> \<le> 1 / 2 \<or> 32767 \<le> p" by linarith
    moreover from 1 z(2) have "q = 32767" by simp
    ultimately show ?thesis by (auto simp add: fixed_point_of_def)
  next
    case 2
    then have "real_of_int z \<le> (- 32768 :: real)" by simp
    with z(1) have "\<bar>- 32768 - p\<bar> \<le> 1 / 2 \<or> p \<le> - 32768" by linarith
    moreover from 2 z(2) have "q = - 32768" by simp
    ultimately show ?thesis by (auto simp add: fixed_point_of_def)
  next
    case 3
    with z(2) have "q = z" by simp
    with 3 z(1) show ?thesis by (simp add: fixed_point_of_def)
  qed
qed

lemma toFixed_fp_0: "fmul ops 0 (to_float ops SCALE) = 0 \<Longrightarrow> toFixed_fp ops SCALE 0 = 0"
  using lroundf_of_int [of 0] by (simp add: toFixed_fp_cases)

lemma MovingAverage_reset_fp_eq:
  assumes "length (ma_buf m) = N"
  shows "MovingAverage_reset_fp ops N SCALE x0A m =
     \<lparr>ma_buf = replicate N (toFixed_fp ops SCALE x0A), ma_idx = 0,
      ma_filled = (toFixed_fp ops SCALE x0A \<noteq> 0), ma_sum = int N * toFixed_fp ops SCALE x0A\<rparr>"
  using assms reset_fill_gen [of N "ma_buf m" "toFixed_fp ops SCALE x0A" 0]
  by (simp add: MovingAverage_reset_fp_def Let_def)

lemma ma_inv_reset_fp0:
  assumes "length (ma_buf m) = N" "0 < N" "single_precision ops"
  shows "ma_inv N [] (MovingAverage_reset_fp ops N SCALE 0 m)"
proof -
  from assms(3) have "toFixed_fp ops SCALE 0 = 0"
    by (simp add: toFixed_fp_0 single_precision_def)
  with assms(1,2) show ?thesis
    by (simp add: MovingAverage_reset_fp_eq ma_inv_def window_def sum_list_replicate)
qed

lemma MovingAverage_run_fp_snoc:
  "MovingAverage_run_fp ops N SCALE (xs @ [x]) rm =
     MovingAverage_update_fp ops N SCALE x (snd (MovingAverage_run_fp ops N SCALE xs rm))"
  by (induction xs arbitrary: rm) simp_all

lemma ma_inv_run_fp:
  assumes "ma_inv N [] m" "0 < N"
  shows "ma_inv N (map (toFixed_fp ops SCALE) xs) (snd (MovingAverage_run_fp ops N SCALE xs (r, m)))"
proof (induction xs rule: rev_induct)
  case Nil
  from assms show ?case by simp
next
  case (snoc x xs)
  from ma_inv_insert [OF snoc.IH assms(2), of "toFixed_fp ops SCALE x"] show ?case
    by (simp add: MovingAverage_run_fp_snoc update_fp_state)
qed

lemma MovingAverage_run_fp_value:
  assumes "ma_inv N [] m" "0 < N" "xs \<noteq> []"
  shows "fst (MovingAverage_run_fp ops N SCALE xs (r, m)) =
     fdiv ops
       (fdiv ops
          (to_float ops
             (sum_list (drop (length xs - min N (length xs)) (map (toFixed_fp ops SCALE) xs))))
          (to_float ops (int (min N (length xs)))))
       (to_float ops SCALE)"
proof -
  from assms(3) obtain ys y where xs: "xs = ys @ [y]" by (cases xs rule: rev_cases) auto
  let ?m = "snd (MovingAverage_run_fp ops N SCALE xs (r, m))"
  have i: "ma_inv N (map (toFixed_fp ops SCALE) xs) ?m"
    using assms(1,2) by (rule ma_inv_run_fp)
  have st: "?m = ma_insert N (toFixed_fp ops SCALE y)
      (snd (MovingAverage_run_fp ops N SCALE ys (r, m)))"
    by (simp add: xs MovingAverage_run_fp_snoc update_fp_state)
  have "fst (MovingAverage_run_fp ops N SCALE xs (r, m)) =
      fdiv ops (fdiv ops (to_float ops (ma_sum ?m)) (to_float ops (ma_denom N ?m)))
        (to_float ops SCALE)"
    unfolding st by (simp add: xs MovingAverage_run_fp_snoc update_fp_value)
  moreover from ma_inv_sum [OF i]
  have "ma_sum ?m =
      sum_list (drop (length xs - min N (length xs)) (map (toFixed_fp ops SCALE) xs))" by simp
  moreover from ma_inv_denom [OF i assms(2)] assms(3)
  have "ma_denom N ?m = int (min N (length xs))" by simp
  ultimately show ?thesis by simp
qed

lemma sum_list_int16_bound:
  "(\<forall>y\<in>set ys. - 32768 \<le> y \<and> y \<le> (32767 :: int)) \<Longrightarrow> \<bar>sum_list ys\<bar> \<le> 32768 * int (length ys)"
  by (induction ys) auto

lemma single_precisionD:
  assumes "single_precision ops"
  shows "fmul ops 0 b = 0"
    and "b \<noteq> 0 \<Longrightarrow> \<bar>fdiv ops a b - a / b\<bar> \<le> \<bar>a / b\<bar> / 2 ^ 24"
    and "\<bar>to_float ops i - real_of_int i\<bar> \<le> \<bar>real_of_int i\<bar> / 2 ^ 24"
    and "\<bar>i\<bar> \<le> 2 ^ 24 \<Longrightarrow> to_float ops i = real_of_int i"
  using assms unfolding single_precision_def by blast+

lemma abs_diff_divide: "0 < c \<Longrightarrow> \<bar>x / c - y / c\<bar> = \<bar>x - y\<bar> / (c :: real)"
  by (metis abs_divide abs_of_pos diff_divide_distrib)

lemma fp_quotient_error:
  assumes sp: "single_precision ops" and d: "0 < d" "d \<le> 32767"
    and S: "0 < SCALE" "SCALE \<le> 32767" and B: "\<bar>s\<bar> \<le> 32768 * d"
  shows "\<bar>fdiv ops (fdiv ops (to_float ops s) (to_float ops d)) (to_float ops SCALE) -
           real_of_int s / real_of_int d / real_of_int SCALE\<bar> \<le> 1 / real_of_int SCALE"
proof -
  define D where "D = real_of_int d"
  define C where "C = real_of_int SCALE"
  define s0 where "s0 = real_of_int s"
  define s1 where "s1 = to_float ops s"
  define q1 where "q1 = fdiv ops s1 D"
  define q2 where "q2 = fdiv ops q1 C"
  define A where "A = \<bar>s0\<bar> / D"
  from d S have small: "\<bar>d\<bar> \<le> 2 ^ 24" "\<bar>SCALE\<bar> \<le> 2 ^ 24" by simp_all
  have cv: "to_float ops d = D" "to_float ops SCALE = C"
    unfolding D_def C_def by (rule single_precisionD(4) [OF sp], rule small)+
  from d S have pos: "0 < D" "0 < C" by (simp_all add: D_def C_def)
  have A0: "0 \<le> A" using pos by (simp add: A_def)
  have "\<bar>s0\<bar> \<le> 32768 * D"
  proof -
    from B have "real_of_int \<bar>s\<bar> \<le> real_of_int (32768 * d)" by (rule of_int_le_iff [THEN iffD2])
    then show ?thesis by (simp add: s0_def D_def)
  qed
  then have A1: "A \<le> 32768" using pos by (simp add: A_def field_simps)
  have p24: "(2 :: real) ^ 24 = 16777216" by simp
  have e1: "\<bar>s1 - s0\<bar> \<le> \<bar>s0\<bar> / 16777216"
    unfolding s1_def s0_def p24 [symmetric] by (rule single_precisionD(3) [OF sp])
  have e2: "\<bar>q1 - s1 / D\<bar> \<le> \<bar>s1 / D\<bar> / 16777216"
    unfolding q1_def p24 [symmetric] by (rule single_precisionD(2) [OF sp]) (use pos in simp)
  have e3: "\<bar>q2 - q1 / C\<bar> \<le> \<bar>q1 / C\<bar> / 16777216"
    unfolding q2_def p24 [symmetric] by (rule single_precisionD(2) [OF sp]) (use pos in simp)
  have a1: "\<bar>s1 / D - s0 / D\<bar> \<le> A / 16777216"
  proof -
    have "\<bar>s1 / D - s0 / D\<bar> = \<bar>s1 - s0\<bar> / D" by (rule abs_diff_divide) (rule pos(1))
    also have "\<dots> \<le> (\<bar>s0\<bar> / 16777216) / D" by (rule divide_right_mono [OF e1]) (use pos in simp)
    finally show ?thesis by (simp add: A_def)
  qed
  have a0: "\<bar>s0 / D\<bar> = A" using pos by (simp add: A_def)
  have a2: "\<bar>s1 / D\<bar> \<le> 2 * A" using a1 a0 A0 by linarith
  have b1: "\<bar>q1 - s1 / D\<bar> \<le> 2 * A / 16777216" using e2 a2 by simp
  have b2: "\<bar>q1\<bar> \<le> 4 * A" using b1 a2 A0 by linarith
  have c1: "\<bar>q2 - q1 / C\<bar> \<le> (4 * A / 16777216) / C"
  proof -
    have "\<bar>q1 / C\<bar> = \<bar>q1\<bar> / C" using pos by simp
    also have "\<dots> \<le> (4 * A) / C" by (rule divide_right_mono [OF b2]) (use pos in simp)
    finally have "\<bar>q1 / C\<bar> / 16777216 \<le> ((4 * A) / C) / 16777216" by simp
    with e3 show ?thesis by simp
  qed
  have c2: "\<bar>q1 / C - s1 / D / C\<bar> \<le> (2 * A / 16777216) / C"
  proof -
    have "\<bar>q1 / C - s1 / D / C\<bar> = \<bar>q1 - s1 / D\<bar> / C"
      by (rule abs_diff_divide) (rule pos(2))
    also have "\<dots> \<le> (2 * A / 16777216) / C" by (rule divide_right_mono [OF b1]) (use pos in simp)
    finally show ?thesis .
  qed
  have c3: "\<bar>s1 / D / C - s0 / D / C\<bar> \<le> (A / 16777216) / C"
  proof -
    have "\<bar>s1 / D / C - s0 / D / C\<bar> = \<bar>s1 / D - s0 / D\<bar> / C"
      by (rule abs_diff_divide) (rule pos(2))
    also have "\<dots> \<le> (A / 16777216) / C" by (rule divide_right_mono [OF a1]) (use pos in simp)
    finally show ?thesis .
  qed
  define t where "t = (A / 16777216) / C"
  define u1 where "u1 = q1 / C"
  define u2 where "u2 = s1 / D / C"
  define u3 where "u3 = s0 / D / C"
  have t1: "\<bar>q2 - u1\<bar> \<le> 4 * t" using c1 by (simp add: t_def u1_def)
  have t2: "\<bar>u1 - u2\<bar> \<le> 2 * t" using c2 by (simp add: t_def u1_def u2_def)
  have t3: "\<bar>u2 - u3\<bar> \<le> t" using c3 by (simp add: t_def u2_def u3_def)
  have "\<bar>q2 - u3\<bar> \<le> 7 * t" using t1 t2 t3 by linarith
  also have "\<dots> = (7 * A / 16777216) / C" by (simp add: t_def)
  also have "\<dots> \<le> 1 / C"
  proof -
    have "7 * A / 16777216 \<le> 1" using A1 by simp
    then show ?thesis by (rule divide_right_mono) (use pos in simp)
  qed
  finally show ?thesis by (simp add: u3_def q2_def q1_def s1_def s0_def cv D_def C_def)
qed

lemma single_precision_exact_ops: "single_precision exact_ops"
  by (simp add: single_precision_def exact_ops_def)

lemma toFixed_fp_exact: "toFixed_fp exact_ops SCALE x = toFixed SCALE x"
  by (simp add: toFixed_fp_def toFixed_def exact_ops_def)

lemma MovingAverage_update_fp_exact:
  "MovingAverage_update_fp exact_ops N SCALE x m = MovingAverage_update N SCALE x m"
  by (simp add: MovingAverage_update_fp_def MovingAverage_update_def toFixed_fp_exact Let_def)
    (simp add: exact_ops_def)

lemma MovingAverage_reset_fp_exact:
  "MovingAverage_reset_fp exact_ops N SCALE x m = MovingAverage_reset N SCALE x m"
  by (simp add: MovingAverage_reset_fp_def MovingAverage_reset_def toFixed_fp_exact)

text \<open>
  Claim C5.  Take a window of \<open>N\<close> samples and a scale \<open>SCALE\<close>, both positive values
  of the target's 16-bit \<open>int\<close>, and any single-precision arithmetic.  Starting from
  \<open>reset(0)\<close>, after any non-empty sequence of \<open>k\<close> calls of \<open>update\<close>: the value
  \<open>toFixed_\<close> stores for each sample is the sample times \<open>SCALE\<close> (the product of the
  arithmetic), rounded to a nearest integer and clamped to the \<open>int16_t\<close> range; and the
  value the last call returns is within \<open>1 / SCALE\<close> of the arithmetic mean of the stored
  values of the last \<open>min N k\<close> samples, divided by \<open>SCALE\<close>.
\<close>

theorem MovingAverage_mean_of_fixed_point_samples:
  assumes "0 < N" "N \<le> 32767" "0 < SCALE" "SCALE \<le> 32767" "single_precision ops"
    and "length (ma_buf m0) = N" "xs \<noteq> []"
  shows "(\<forall>x\<in>set xs. fixed_point_of (fmul ops x (real_of_int SCALE)) (toFixed_fp ops SCALE x)) \<and>
     \<bar>fst (MovingAverage_run_fp ops N SCALE xs (r0, MovingAverage_reset_fp ops N SCALE 0 m0)) -
        (real_of_int (sum_list (drop (length xs - min N (length xs))
                                   (map (toFixed_fp ops SCALE) xs))) /
           real (min N (length xs))) / real_of_int SCALE\<bar> \<le> 1 / real_of_int SCALE"
proof
  from assms(3,4) have "\<bar>SCALE\<bar> \<le> 2 ^ 24" by simp
  then have cv: "to_float ops SCALE = real_of_int SCALE"
    by (rule single_precisionD(4) [OF assms(5)])
  show "\<forall>x\<in>set xs. fixed_point_of (fmul ops x (real_of_int SCALE)) (toFixed_fp ops SCALE x)"
    using toFixed_fp_fixed_point [of ops _ SCALE] by (simp add: cv)
next
  let ?fx = "map (toFixed_fp ops SCALE) xs"
  let ?w = "min N (length xs)"
  let ?last = "drop (length xs - ?w) ?fx"
  have i: "ma_inv N [] (MovingAverage_reset_fp ops N SCALE 0 m0)"
    using assms(6,1,5) by (rule ma_inv_reset_fp0)
  have v: "fst (MovingAverage_run_fp ops N SCALE xs (r0, MovingAverage_reset_fp ops N SCALE 0 m0)) =
      fdiv ops (fdiv ops (to_float ops (sum_list ?last)) (to_float ops (int ?w)))
        (to_float ops SCALE)"
    using i assms(1,7) by (rule MovingAverage_run_fp_value)
  have len: "length ?last = ?w" by (simp add: min_def)
  have "\<forall>y\<in>set ?last. - 32768 \<le> y \<and> y \<le> 32767"
    using toFixed_fp_range [of ops SCALE] by (auto dest!: in_set_dropD)
  from sum_list_int16_bound [OF this] len
  have b: "\<bar>sum_list ?last\<bar> \<le> 32768 * int ?w" by simp
  from assms(1,2,7) have w: "0 < int ?w" "int ?w \<le> 32767" by (simp_all add: min_def)
  from fp_quotient_error [OF assms(5) w assms(3,4) b]
  show "\<bar>fst (MovingAverage_run_fp ops N SCALE xs (r0, MovingAverage_reset_fp ops N SCALE 0 m0)) -
        (real_of_int (sum_list ?last) / real ?w) / real_of_int SCALE\<bar> \<le> 1 / real_of_int SCALE"
    by (simp add: v)
qed

lemma single_precision_sample_ops: "single_precision sample_ops"
proof -
  have h: "\<bar>c * (1 + 1 / 2 ^ 25) - c\<bar> \<le> \<bar>c\<bar> / 2 ^ 24" for c :: real
  proof -
    have "c * (1 + 1 / 2 ^ 25) - c = c / 33554432" by (simp add: algebra_simps)
    then have "\<bar>c * (1 + 1 / 2 ^ 25) - c\<bar> = \<bar>c\<bar> / 33554432" by simp
    also have "\<dots> \<le> \<bar>c\<bar> / 16777216" by simp
    finally show ?thesis by simp
  qed
  have 1: "\<forall>b. fmul sample_ops 0 b = 0" by (simp add: sample_ops_def)
  have 2: "\<forall>a b. b \<noteq> 0 \<longrightarrow> \<bar>fdiv sample_ops a b - a / b\<bar> \<le> \<bar>a / b\<bar> / 2 ^ 24"
  proof (intro allI impI)
    fix a b :: real
    have e: "fdiv sample_ops a b = a / b * (1 + 1 / 2 ^ 25)" by (simp add: sample_ops_def)
    show "\<bar>fdiv sample_ops a b - a / b\<bar> \<le> \<bar>a / b\<bar> / 2 ^ 24" unfolding e by (rule h)
  qed
  have 3: "\<forall>i. \<bar>to_float sample_ops i - real_of_int i\<bar> \<le> \<bar>real_of_int i\<bar> / 2 ^ 24"
    by (simp add: sample_ops_def)
  have 4: "\<forall>i. \<bar>i\<bar> \<le> 2 ^ 24 \<longrightarrow> to_float sample_ops i = real_of_int i"
    by (simp add: sample_ops_def)
  show ?thesis unfolding single_precision_def using 1 2 3 4 by blast
qed

theorem MovingAverage_mean_of_fixed_point_samples_witness:
  "toFixed_fp sample_ops 1000 (5368709 / 2147483648) = 3 \<and>
   fixed_point_of (5 / 2) 3 \<and>
   fst (MovingAverage_run_fp sample_ops 3 1000 [1 / 2, 5368709 / 2147483648]
          (0, MovingAverage_reset_fp sample_ops 3 1000 0 ma3)) =
     (503 / 2 * (1 + 1 / 2 ^ 25)) / 1000 * (1 + 1 / 2 ^ 25) \<and>
   \<bar>fst (MovingAverage_run_fp sample_ops 3 1000 [1 / 2, 5368709 / 2147483648]
          (0, MovingAverage_reset_fp sample_ops 3 1000 0 ma3)) -
      (real_of_int (500 + 3) / 2) / 1000\<bar> \<le> 1 / 1000"
proof -
  have t: "toFixed_fp sample_ops 1000 (5368709 / 2147483648) = 3"
    "toFixed_fp sample_ops 1000 (1 / 2) = 500"
    by (simp_all add: toFixed_fp_def sample_ops_def lroundf_def)
  have l: "length (ma_buf ma3) = 3" by (simp add: ma3_def)
  have r: "MovingAverage_reset_fp sample_ops 3 1000 0 ma3 =
      \<lparr>ma_buf = [0, 0, 0], ma_idx = 0, ma_filled = False, ma_sum = 0\<rparr>"
    using MovingAverage_reset_fp_eq [OF l, of sample_ops 1000 0]
    by (simp add: toFixed_fp_def sample_ops_def lroundf_def numeral_3_eq_3)
  have v: "fst (MovingAverage_run_fp sample_ops 3 1000 [1 / 2, 5368709 / 2147483648]
          (0, MovingAverage_reset_fp sample_ops 3 1000 0 ma3)) =
     (503 / 2 * (1 + 1 / 2 ^ 25)) / 1000 * (1 + 1 / 2 ^ 25)"
    by (simp add: r MovingAverage_update_fp_def t Let_def) (simp add: sample_ops_def)
  from MovingAverage_mean_of_fixed_point_samples [of 3 1000 sample_ops ma3
      "[1 / 2, 5368709 / 2147483648]" 0] single_precision_sample_ops l
  have "\<bar>fst (MovingAverage_run_fp sample_ops 3 1000 [1 / 2, 5368709 / 2147483648]
          (0, MovingAverage_reset_fp sample_ops 3 1000 0 ma3)) -
      (real_of_int (500 + 3) / 2) / 1000\<bar> \<le> 1 / 1000"
    by (simp add: t)
  with t v show ?thesis by (simp add: fixed_point_of_def)
qed

text \<open>In exact arithmetic the returned value is that mean divided by \<open>SCALE\<close>.\<close>

lemma MovingAverage_mean_exact:
  assumes "0 < N" "length (ma_buf m0) = N" "xs \<noteq> []"
  shows "fst (MovingAverage_run N SCALE xs (r0, MovingAverage_reset N SCALE 0 m0)) =
      (real_of_int (sum_list (drop (length xs - min N (length xs)) (map (toFixed SCALE) xs))) /
         real (min N (length xs))) / real_of_int SCALE"
proof -
  have "ma_inv N [] (MovingAverage_reset N SCALE 0 m0)"
    using assms(2,1) by (rule ma_inv_reset0)
  from MovingAverage_run_value [OF this assms(1,3), of SCALE r0] show ?thesis .
qed

lemma filled_after_reset_0:
  assumes "0 < N" "length (ma_buf m0) = N"
  shows "\<not> filled (MovingAverage_reset N SCALE 0 m0)"
    and "filled (snd (MovingAverage_run N SCALE xs (r0, MovingAverage_reset N SCALE 0 m0))) =
           (N \<le> length xs)"
proof -
  have i: "ma_inv N [] (MovingAverage_reset N SCALE 0 m0)"
    using assms(2,1) by (rule ma_inv_reset0)
  then show "\<not> filled (MovingAverage_reset N SCALE 0 m0)"
    using assms(1) by (simp add: ma_inv_def filled_def)
  from ma_inv_run [OF i assms(1), of SCALE xs r0]
  show "filled (snd (MovingAverage_run N SCALE xs (r0, MovingAverage_reset N SCALE 0 m0))) =
           (N \<le> length xs)"
    by (simp add: ma_inv_def filled_def)
qed

lemma filled_after_reset:
  "length (ma_buf m0) = N \<Longrightarrow>
     filled (MovingAverage_reset N SCALE x m0) = (toFixed SCALE x \<noteq> 0)"
  by (simp add: MovingAverage_reset_eq filled_def)

text \<open>
  Claim C7.  The claim is that \<open>filled()\<close> is true right after \<open>reset(x)\<close> for every
  \<open>x \<noteq> 0\<close>.  \<open>reset\<close> tests the fixed-point value, not \<open>x\<close>: with the window of 20
  samples and \<open>SCALE = 1000\<close> of the short average, \<open>reset(0.0003)\<close> stores zeros and
  leaves \<open>filled()\<close> false although \<open>0.0003 \<noteq> 0\<close>.
\<close>

theorem reset_small_nonzero_not_filled:
  "(3 / 10000 :: real) \<noteq> 0 \<and> toFixed 1000 (3 / 10000) = 0 \<and>
   \<not> filled (MovingAverage_reset 20 1000 (3 / 10000) ma20)"
proof -
  have "length (ma_buf ma20) = 20" by (simp add: ma20_def)
  from filled_after_reset [OF this, of 1000 "3 / 10000"] show ?thesis
    by (simp add: toFixed_def lroundf_def)
qed

section \<open>StepperDriver\<close>

lemma stepper0_simps:
  "stepsPerMm stepper0 = 400" "default_mm_s stepper0 = 5" "pos_steps stepper0 = 0"
  "speed_mm_s stepper0 = 0" "dir stepper0 = True" "tNextStep stepper0 = 0"
  "motion stepper0 = Idle" "target_steps stepper0 = 0"
  by (simp_all add: stepper0_def StepperDriver_new_def)

text \<open>
  Claim C4, as the code has it.  Whenever \<open>update\<close> emits a step pulse, the next-step
  deadline becomes the current time plus one step period: \<open>tNextStep_ = now + period_us\<close>.
\<close>

theorem update_deadline_is_now_plus_period:
  "hw (StepperDriver_update us s) \<noteq> hw s \<Longrightarrow>
     tNextStep (StepperDriver_update us s) = us + period_us_of s"
  by (auto simp add: StepperDriver_update_def stepOnce_def period_us_of_def Let_def
      split: if_splits)

theorem update_deadline_is_now_plus_period_witness:
  "hw (StepperDriver_update 1500 stepper_moving) \<noteq> hw stepper_moving \<and>
     tNextStep (StepperDriver_update 1500 stepper_moving) = 1500 + period_us_of stepper_moving"
  using update_deadline_is_now_plus_period [of 1500 stepper_moving]
  by (simp add: stepper_moving_def stepper0_simps StepperDriver_update_def stepOnce_def
      period_us_of_def Let_def)

text \<open>
  Claim C4, as stated, fails.  A driver at 1 mm/s (period 2500 microseconds) whose step
  was due at 1000 is updated at 1500: the pulse is emitted and the new deadline is
  \<open>1500 + 2500 = 4000\<close>, not the previous deadline plus one period, \<open>3500\<close>.
\<close>

theorem update_deadline_not_previous_plus_period:
  "hw (StepperDriver_update 1500 stepper_moving) \<noteq> hw stepper_moving \<and>
   tNextStep (StepperDriver_update 1500 stepper_moving) = 4000 \<and>
   tNextStep stepper_moving + period_us_of stepper_moving = 3500 \<and>
   tNextStep (StepperDriver_update 1500 stepper_moving) \<noteq>
     tNextStep stepper_moving + period_us_of stepper_moving"
  by (simp add: stepper_moving_def stepper0_simps StepperDriver_update_def stepOnce_def
      period_us_of_def Let_def)

lemma moveToMm_zero_speed:
  "0 \<le> default_mm_s s \<Longrightarrow> \<bar>speed_mm_s (moveToMm x 0 s)\<bar> = default_mm_s s"
  by (simp add: moveToMm_def Let_def)

lemma moveToMm_clamped:
  "0 \<le> default_mm_s s \<Longrightarrow> \<bar>speed_mm_s (moveToMm x v s)\<bar> \<le> default_mm_s s * 2"
  by (simp add: moveToMm_def Let_def)

lemma moveToMm_negative_speed:
  "v < 0 \<Longrightarrow> - v \<le> default_mm_s s * 2 \<Longrightarrow> \<bar>speed_mm_s (moveToMm x v s)\<bar> = - v"
  by (simp add: moveToMm_def Let_def)

text \<open>
  Claim C9, as the code has it.  On a driver with a non-negative nominal speed, for every
  call \<open>moveToMm(x, v)\<close> the commanded speed magnitude is the magnitude of the request
  clamped to the configured maximum (twice the nominal speed), the nominal speed standing
  for a request of zero: the sign of \<open>v\<close> is not used.
\<close>

theorem moveToMm_speed_magnitude:
  "0 \<le> default_mm_s s \<Longrightarrow>
     \<bar>speed_mm_s (moveToMm x v s)\<bar> =
       min (if v = 0 then default_mm_s s else \<bar>v\<bar>) (default_mm_s s * 2) \<and>
     \<bar>speed_mm_s (moveToMm x v s)\<bar> \<le> default_mm_s s * 2"
  by (simp add: moveToMm_def Let_def min_def)

theorem moveToMm_speed_magnitude_witness:
  "0 \<le> default_mm_s stepper0 \<and>
   \<bar>speed_mm_s (moveToMm 10 0 stepper0)\<bar> = 5 \<and>
   \<bar>speed_mm_s (moveToMm 10 (- 7) stepper0)\<bar> = 7 \<and>
   \<bar>speed_mm_s (moveToMm 10 25 stepper0)\<bar> = 10"
  using moveToMm_speed_magnitude [of stepper0 10 0]
    moveToMm_speed_magnitude [of stepper0 10 "- 7"]
    moveToMm_speed_magnitude [of stepper0 10 25]
  by (simp add: stepper0_simps)

text \<open>
  Claim C9, as stated, fails.  A non-positive request does not always select the nominal
  speed: on the driver of the sketch (nominal speed 5 mm/s, maximum 10 mm/s)
  \<open>moveToMm(10, -3)\<close> moves at 3 mm/s.
\<close>

theorem moveToMm_negative_request_keeps_magnitude:
  "default_mm_s stepper0 = 5 \<and> speed_mm_s (moveToMm 10 (- 3) stepper0) = 3 \<and>
   \<bar>speed_mm_s (moveToMm 10 (- 3) stepper0)\<bar> \<noteq> default_mm_s stepper0"
  by (simp add: stepper0_simps moveToMm_def Let_def lroundf_def)

lemma update_not_busy: "\<not> isBusy s \<Longrightarrow> \<not> isBusy (StepperDriver_update us s)"
  by (auto simp add: StepperDriver_update_def stepOnce_def isBusy_def Let_def)

lemma fold_update_not_busy:
  "\<not> isBusy s \<Longrightarrow> \<not> isBusy (fold StepperDriver_update uss s)"
  by (induction uss arbitrary: s) (simp_all add: update_not_busy)

lemma setSpeed_not_busy: "\<not> isBusy (setSpeedMmPerSec v s)"
  by (simp add: setSpeedMmPerSec_def isBusy_def Let_def)

lemma update_busy_iff:
  "isBusy s \<Longrightarrow>
     (\<not> isBusy (StepperDriver_update us s)) =
     (pos_steps (StepperDriver_update us s) \<noteq> pos_steps s \<and> reached (StepperDriver_update us s))"
  by (auto simp add: StepperDriver_update_def stepOnce_def isBusy_def reached_def Let_def)

text \<open>
  Claim C10.  \<open>isBusy()\<close> is true exactly when the motion mode is \<open>ToTarget\<close>.  After
  \<open>setSpeedMmPerSec(v)\<close>, for any \<open>v\<close> and through any number of \<open>update\<close> calls,
  it is false.  During a target move, \<open>isBusy()\<close> is false after an \<open>update\<close> call exactly
  when that call emitted a step and the position reached the target in the direction of
  travel: it becomes false in the call in which the move ends itself.
\<close>

theorem isBusy_exactly_ToTarget:
  "(isBusy s \<longleftrightarrow> motion s = ToTarget) \<and>
   \<not> isBusy (fold StepperDriver_update uss (setSpeedMmPerSec v s)) \<and>
   (isBusy s \<longrightarrow>
      (\<not> isBusy (StepperDriver_update us s)) =
      (pos_steps (StepperDriver_update us s) \<noteq> pos_steps s \<and>
       reached (StepperDriver_update us s)))"
  using fold_update_not_busy [OF setSpeed_not_busy] update_busy_iff
  by (simp add: isBusy_def)

theorem isBusy_exactly_ToTarget_witness:
  "isBusy stepper_arriving \<and> motion stepper_arriving = ToTarget \<and>
   \<not> isBusy (StepperDriver_update 100 stepper_arriving) \<and>
   pos_steps (StepperDriver_update 100 stepper_arriving) = 1 \<and>
   reached (StepperDriver_update 100 stepper_arriving) \<and>
   \<not> isBusy (fold StepperDriver_update [100, 2600] (setSpeedMmPerSec 1 stepper_arriving)) \<and>
   pos_steps (fold StepperDriver_update [100, 2600] (setSpeedMmPerSec 1 stepper_arriving)) = 2"
  using isBusy_exactly_ToTarget [of stepper_arriving "[100, 2600]" 1 100]
  by (simp add: stepper_arriving_def stepper0_simps StepperDriver_update_def stepOnce_def
      setSpeedMmPerSec_def isBusy_def reached_def Let_def)

section \<open>CurrentSensor\<close>

lemma CurrentSensor_update_total: "\<exists>s'. CurrentSensor_update now adc s = Some s'"
  by (auto simp add: CurrentSensor_update_def div_by_count_def Let_def word_greater_zero_iff)

text \<open>
  Claim C8.  If the sensor is enabled and its integration window closes with zero
  accumulated samples, \<open>update\<close> divides by no zero count (it returns a state) and the
  last RMS current is the one before the call; the window advances by its length and the
  count stays zero.
\<close>

theorem zero_sample_window_keeps_Irms:
  assumes "enabled s" "window_elapsed now s" "samples_at_close now s = 0"
  shows "\<exists>s'. CurrentSensor_update now adc s = Some s' \<and> Irms s' = Irms s \<and>
     lastIrms s' = lastIrms s \<and> nSamples s' = 0 \<and>
     windowStart s' = windowStart s + sampleWindow_us s"
  using assms
  by (auto simp add: CurrentSensor_update_def window_elapsed_def samples_at_close_def
      sample_due_def lastIrms_def Let_def split: if_splits)

theorem zero_sample_window_keeps_Irms_witness:
  "enabled sensor0 \<and> window_elapsed 50000 sensor0 \<and> samples_at_close 50000 sensor0 = 0 \<and>
   (\<exists>s'. CurrentSensor_update 50000 512 sensor0 = Some s' \<and> Irms s' = 7 / 10 \<and>
     lastIrms s' = 7 / 10 \<and> nSamples s' = 0 \<and> windowStart s' = 40000)"
proof -
  have h: "enabled sensor0" "window_elapsed 50000 sensor0" "samples_at_close 50000 sensor0 = 0"
    by (simp_all add: sensor0_def window_elapsed_def samples_at_close_def sample_due_def)
  from zero_sample_window_keeps_Irms [OF h, of 512] h show ?thesis
    by (simp add: sensor0_def lastIrms_def)
qed

section \<open>The modes\<close>

lemma stepper_at_10mm_simps:
  "stepsPerMm stepper_at_10mm = 400" "default_mm_s stepper_at_10mm = 5"
  "pos_steps stepper_at_10mm = 4000" "speed_mm_s stepper_at_10mm = 0"
  "motion stepper_at_10mm = Idle"
  by (simp_all add: stepper_at_10mm_def stepper0_simps)

lemma update_idle:
  "motion s = Idle \<Longrightarrow> speed_mm_s s = 0 \<Longrightarrow> StepperDriver_update us s = s\<lparr>tNextStep := us\<rparr>"
  by (simp add: StepperDriver_update_def)

subsection \<open>The hold condition of MOD2\<close>

lemma hold_condition_ignores_current: "hold_condition I thr = (1 \<le> thr)"
  by (simp add: hold_condition_def)

lemma ma200_first: "fst (MovingAverage_update 200 1000 (1 / 100) ma200) = 1 / 100"
  by (simp add: MovingAverage_update_def ma200_def toFixed_def lroundf_def Let_def)

text \<open>
  Claim C1.  The claim is that, after the pre-etch period, the hold block switches the
  30 V off exactly when the smoothed current \<open>I\<close> is at or below the etch threshold.  The
  condition of the code compares the truth value of \<open>I <= I\<close> with the threshold and
  does not depend on \<open>I\<close> (\<open>hold_condition_ignores_current\<close>).  With the default threshold
  0.05 A and \<open>I = 0.01\<close> A, 5 seconds into the hold, the block does not fire: the state
  stays \<open>RelayHold\<close> and the 30 V stays on.
\<close>

theorem hold_condition_not_threshold_test:
  "call_correctedIrms mod2_hold = 1 / 100 \<and>
   fst (call_Iavg_update (1 / 100) mod2_hold) = 1 / 100 \<and>
   p2_etchingThreshold_A (mod2 (gParams mod2_hold)) = 5 / 100 \<and>
   (2000 :: u32) \<le> 5000 - m2_etchStart mod2_hold \<and>
   fst (Mod2Mode_step 0 5000 mod2_hold) = False \<and>
   m2_st (snd (Mod2Mode_step 0 5000 mod2_hold)) = M2_RelayHold \<and>
   pins (snd (Mod2Mode_step 0 5000 mod2_hold)) relayPin2 = LOW \<and>
   trace (snd (Mod2Mode_step 0 5000 mod2_hold)) = []"
  by (simp add: Mod2Mode_step_def Mod2_RelayHold_def call_update_def call_correctedIrms_def
      call_Iavg_update_def correctedIrms_def mod2_hold_def update_idle stepper_at_10mm_simps
      positionMm_def Z_MIN_def Z_MAX_def sensor0_def gParams_default_def ma200_first
      hold_condition_def Let_def case_prod_beta)

subsection \<open>The soft limits\<close>

lemma update_keeps_config:
  "stepsPerMm (StepperDriver_update us s) = stepsPerMm s"
  "default_mm_s (StepperDriver_update us s) = default_mm_s s"
  by (simp_all add: StepperDriver_update_def stepOnce_def Let_def)

lemma setSpeed_zero:
  "0 \<le> default_mm_s s \<Longrightarrow>
     speed_mm_s (setSpeedMmPerSec 0 s) = 0 \<and> motion (setSpeedMmPerSec 0 s) = Idle \<and>
     pos_steps (setSpeedMmPerSec 0 s) = pos_steps s"
  by (simp add: setSpeedMmPerSec_def Let_def)

lemma Mod1_step_abort:
  fixes w :: Mod1Mode
  assumes "0 \<le> default_mm_s (stepper w)"
    and "positionMm (StepperDriver_update us (stepper w)) \<le> 3 / 2 \<or>
         positionMm (StepperDriver_update us (stepper w)) \<ge> 75"
  shows "fst (Mod1Mode_step us now w) \<and> m1_st (snd (Mod1Mode_step us now w)) = M1_Done \<and>
     safe_stop w (snd (Mod1Mode_step us now w)) \<and>
     Mod1Mode_step us now w = Mod1_abort (call_update us w)"
proof -
  have d: "0 \<le> default_mm_s (StepperDriver_update us (stepper w))"
    using assms(1) by (simp add: update_keeps_config)
  have e: "Mod1Mode_step us now w = Mod1_abort (call_update us w)"
    using assms(2) by (auto simp add: Mod1Mode_step_def call_update_def Z_MIN_def Z_MAX_def Let_def)
  show ?thesis
    using setSpeed_zero [OF d]
    by (simp add: e Mod1_abort_def call_update_def call_setSpeedMmPerSec_def
        call_setEnabled_def setEnabled_def digitalWrite_def safe_stop_def Let_def)
qed

lemma Mod2_step_abort:
  fixes w :: Mod2Mode
  assumes "0 \<le> default_mm_s (stepper w)"
    and "positionMm (StepperDriver_update us (stepper w)) \<le> 3 / 2 \<or>
         positionMm (StepperDriver_update us (stepper w)) \<ge> 75"
  shows "fst (Mod2Mode_step us now w) \<and> m2_st (snd (Mod2Mode_step us now w)) = M2_Done \<and>
     safe_stop w (snd (Mod2Mode_step us now w)) \<and>
     Mod2Mode_step us now w = Mod2_abort (call_update us w)"
proof -
  have d: "0 \<le> default_mm_s (StepperDriver_update us (stepper w))"
    using assms(1) by (simp add: update_keeps_config)
  have e: "Mod2Mode_step us now w = Mod2_abort (call_update us w)"
    using assms(2) by (auto simp add: Mod2Mode_step_def call_update_def Z_MIN_def Z_MAX_def Let_def)
  show ?thesis
    using setSpeed_zero [OF d]
    by (simp add: e Mod2_abort_def call_update_def call_setSpeedMmPerSec_def
        call_setEnabled_def setEnabled_def digitalWrite_def safe_stop_def Let_def)
qed

text \<open>
  Claim C2.  For every call of \<open>Mod1Mode::step\<close> and of \<open>Mod2Mode::step\<close>, in every
  state, on a driver with a non-zero step scale and a non-negative nominal speed: if the
  position the call reads (after it has run the stepper) is at most 1.5 mm or at least
  75 mm, the call returns true with the state \<open>Done\<close>, the speed zero, current sensing
  disabled and both relay outputs \<open>HIGH\<close>; it is the soft-limit block alone that runs,
  whatever the state and the time.
\<close>

theorem soft_limit_abort:
  fixes w1 :: Mod1Mode and w2 :: Mod2Mode
  shows
  "(stepsPerMm (stepper w1) \<noteq> 0 \<and> 0 \<le> default_mm_s (stepper w1) \<and>
    (positionMm (StepperDriver_update us (stepper w1)) \<le> 3 / 2 \<or>
     positionMm (StepperDriver_update us (stepper w1)) \<ge> 75) \<longrightarrow>
      fst (Mod1Mode_step us now w1) \<and> m1_st (snd (Mod1Mode_step us now w1)) = M1_Done \<and>
      safe_stop w1 (snd (Mod1Mode_step us now w1)) \<and>
      Mod1Mode_step us now w1 = Mod1_abort (call_update us w1)) \<and>
   (stepsPerMm (stepper w2) \<noteq> 0 \<and> 0 \<le> default_mm_s (stepper w2) \<and>
    (positionMm (StepperDriver_update us (stepper w2)) \<le> 3 / 2 \<or>
     positionMm (StepperDriver_update us (stepper w2)) \<ge> 75) \<longrightarrow>
      fst (Mod2Mode_step us now w2) \<and> m2_st (snd (Mod2Mode_step us now w2)) = M2_Done \<and>
      safe_stop w2 (snd (Mod2Mode_step us now w2)) \<and>
      Mod2Mode_step us now w2 = Mod2_abort (call_update us w2))"
  using Mod1_step_abort [of w1 us now] Mod2_step_abort [of w2 us now] by blast

theorem soft_limit_abort_witness:
  "positionMm (StepperDriver_update 0 (stepper mod1_etching_low)) = 3 / 2 \<and>
   fst (Mod1Mode_step 0 7000 mod1_etching_low) \<and>
   m1_st (snd (Mod1Mode_step 0 7000 mod1_etching_low)) = M1_Done \<and>
   safe_stop mod1_etching_low (snd (Mod1Mode_step 0 7000 mod1_etching_low)) \<and>
   positionMm (StepperDriver_update 0 (stepper mod2_pulsing_high)) = 75 \<and>
   fst (Mod2Mode_step 0 7000 mod2_pulsing_high) \<and>
   m2_st (snd (Mod2Mode_step 0 7000 mod2_pulsing_high)) = M2_Done \<and>
   safe_stop mod2_pulsing_high (snd (Mod2Mode_step 0 7000 mod2_pulsing_high))"
proof -
  have 1: "positionMm (StepperDriver_update 0 (stepper mod1_etching_low)) = 3 / 2"
    by (simp add: mod1_etching_low_def stepper_retracting_def stepper0_simps
        StepperDriver_update_def stepOnce_def positionMm_def Let_def)
  have 2: "positionMm (StepperDriver_update 0 (stepper mod2_pulsing_high)) = 75"
    by (simp add: mod2_pulsing_high_def stepper0_simps update_idle positionMm_def)
  have 3: "stepsPerMm (stepper mod1_etching_low) \<noteq> 0 \<and> 0 \<le> default_mm_s (stepper mod1_etching_low)"
    by (simp add: mod1_etching_low_def stepper_retracting_def stepper0_simps)
  have 4: "stepsPerMm (stepper mod2_pulsing_high) \<noteq> 0 \<and> 0 \<le> default_mm_s (stepper mod2_pulsing_high)"
    by (simp add: mod2_pulsing_high_def stepper0_simps)
  have 5: "positionMm (StepperDriver_update 0 (stepper mod1_etching_low)) \<le> 3 / 2 \<or>
       positionMm (StepperDriver_update 0 (stepper mod1_etching_low)) \<ge> 75"
    by (simp add: 1)
  have 6: "positionMm (StepperDriver_update 0 (stepper mod2_pulsing_high)) \<le> 3 / 2 \<or>
       positionMm (StepperDriver_update 0 (stepper mod2_pulsing_high)) \<ge> 75"
    by (simp add: 2)
  from soft_limit_abort [where ?w1.0 = mod1_etching_low and ?w2.0 = mod2_pulsing_high
      and us = 0 and now = 7000] 1 2 3 4 5 6
  show ?thesis by blast
qed

subsection \<open>Blocking delays\<close>

lemma blocked_us_simps:
  "blocked_us [] = 0"
  "blocked_us (xs @ ys) = blocked_us xs + blocked_us ys"
  "blocked_us (e # xs) = blocking_us e + blocked_us xs"
  by (simp_all add: blocked_us_def)

lemma hw_blocked:
  "blocked_us (hw (setSpeedMmPerSec v s)) = blocked_us (hw s)"
  "blocked_us (hw (moveToMm x v s)) = blocked_us (hw s)"
  "blocked_us (hw (moveRelativeMm dx v s)) = blocked_us (hw s)"
  "blocked_us (hw (setPositionMm x s)) = blocked_us (hw s)"
  "blocked_us (hw (StepperDriver_enable on s)) = blocked_us (hw s)"
  by (simp_all add: setSpeedMmPerSec_def moveToMm_def moveRelativeMm_def setPositionMm_def
      StepperDriver_enable_def blocked_us_simps Let_def)

lemma hw_blocked_update:
  "blocked_us (hw (StepperDriver_update us s)) = blocked_us (hw s) \<or>
   blocked_us (hw (StepperDriver_update us s)) = blocked_us (hw s) + 2"
  by (simp add: StepperDriver_update_def stepOnce_def blocked_us_simps Let_def)

lemmas world_calls =
  call_update_def call_enable_def call_setSpeedMmPerSec_def call_moveRelativeMm_def
  call_setPositionMm_def call_setEnabled_def call_correctedIrms_def call_Iavg_update_def
  call_IavgS_update_def call_Iavg_reset_def call_IavgS_reset_def digitalWrite_def delay_def

lemmas Mod1_blocks =
  Mod1_abort_def Mod1_MovingDownDetect_def Mod1_Wait1_def Mod1_MoveDown1_def Mod1_Wait2_def
  Mod1_Validate30V_def Mod1_RelayHold_def Mod1_Etching_def Mod1_FinalLift_def

lemmas Mod2_blocks =
  Mod2_abort_def Mod2_MovingDownDetect_def Mod2_Wait1_def Mod2_MoveDown1_def Mod2_Wait2_def
  Mod2_Validate30V_def Mod2_RelayHold_def Mod2_Wait3_def Mod2_MoveDown2_def Mod2_Wait4_def
  Mod2_RelayPulse_def Mod2_FinalLift_def

lemma Mod1_blocks_same_blocked:
  "same_blocked w (snd (Mod1_abort w))"
  "same_blocked w (snd (Mod1_MovingDownDetect now w))"
  "same_blocked w (snd (Mod1_Wait1 now w))"
  "same_blocked w (snd (Mod1_MoveDown1 now w))"
  "same_blocked w (snd (Mod1_Wait2 now w))"
  "same_blocked w (snd (Mod1_Validate30V now w))"
  "same_blocked w (snd (Mod1_RelayHold now w))"
  "same_blocked w (snd (Mod1_Etching now w))"
  "same_blocked w (snd (Mod1_FinalLift now w))"
  by (simp_all add: Mod1_blocks world_calls same_blocked_def hw_blocked blocked_us_simps
      Let_def case_prod_beta)

lemma Mod2_blocks_same_blocked:
  "same_blocked w (snd (Mod2_abort w))"
  "same_blocked w (snd (Mod2_MovingDownDetect now w))"
  "same_blocked w (snd (Mod2_Wait1 now w))"
  "same_blocked w (snd (Mod2_MoveDown1 now w))"
  "same_blocked w (snd (Mod2_Wait2 now w))"
  "same_blocked w (snd (Mod2_Validate30V now w))"
  "same_blocked w (snd (Mod2_RelayHold now w))"
  "same_blocked w (snd (Mod2_Wait3 now w))"
  "same_blocked w (snd (Mod2_MoveDown2 now w))"
  "same_blocked w (snd (Mod2_Wait4 now w))"
  "same_blocked w (snd (Mod2_RelayPulse now w))"
  "same_blocked w (snd (Mod2_FinalLift now w))"
  by (simp_all add: Mod2_blocks world_calls same_blocked_def hw_blocked blocked_us_simps
      Let_def case_prod_beta)

lemma same_blocked_refl: "same_blocked w w"
  by (simp add: same_blocked_def)

lemma Mod1_after_update_same_blocked:
  "same_blocked (call_update us w) (snd (Mod1Mode_step us now w))"
  by (simp add: Mod1Mode_step_def Let_def Mod1_blocks_same_blocked same_blocked_refl)

lemma Mod2_after_update_same_blocked:
  "same_blocked (call_update us w) (snd (Mod2Mode_step us now w))"
  by (simp add: Mod2Mode_step_def Let_def Mod2_blocks_same_blocked same_blocked_refl)

lemma Mod1_step_blocked:
  "blocked_us (trace (snd (Mod1Mode_step us now w))) = blocked_us (trace w) \<and>
   blocked_us (hw (stepper (snd (Mod1Mode_step us now w)))) \<le> blocked_us (hw (stepper w)) + 2"
  using Mod1_after_update_same_blocked [of us w now] hw_blocked_update [of us "stepper w"]
  by (auto simp add: same_blocked_def call_update_def)

lemma Mod2_step_blocked:
  "blocked_us (trace (snd (Mod2Mode_step us now w))) = blocked_us (trace w) \<and>
   blocked_us (hw (stepper (snd (Mod2Mode_step us now w)))) \<le> blocked_us (hw (stepper w)) + 2"
  using Mod2_after_update_same_blocked [of us w now] hw_blocked_update [of us "stepper w"]
  by (auto simp add: same_blocked_def call_update_def)

lemma Home_step_trace_blocked:
  "blocked_us (trace (snd (HomeMode_step us now limit h))) =
     blocked_us (trace h) + home_delay_us limit h"
  by (simp add: HomeMode_step_def world_calls home_delay_us_def blocked_us_simps Let_def)

lemma Home_step_hw_blocked:
  "blocked_us (hw (stepper (snd (HomeMode_step us now limit h)))) \<le>
     blocked_us (hw (stepper h)) + 2"
  using hw_blocked_update [of us "stepper h"]
  by (auto simp add: HomeMode_step_def world_calls hw_blocked Let_def)

lemma Home_measuring_done:
  "homed h \<Longrightarrow> baselineMeasuring h \<Longrightarrow> \<not> baselineDone h \<Longrightarrow>
     baselineDone (snd (HomeMode_step us now limit h)) = (5000 \<le> now - baselineStart h) \<and>
     fst (HomeMode_step us now limit h) = False"
  by (simp add: HomeMode_step_def world_calls Let_def)

text \<open>
  No call of \<open>Mod1Mode::step\<close> or \<open>Mod2Mode::step\<close> blocks except for the
  2 microseconds of a step pulse: the calls add no delay of their own.
  \<open>HomeMode::step\<close> blocks for 200 ms in the call that finds the limit switch pressed and
  for 2000 ms in the call that reports completion, and for no longer than a step pulse in
  any other call; the 5-second baseline capture is a start timestamp compared with the
  clock on each call.
\<close>

theorem step_blocking_delays:
  fixes w1 :: Mod1Mode and w2 :: Mod2Mode and h :: HomeMode
  shows
  "blocked_us (trace (snd (Mod1Mode_step us now w1))) = blocked_us (trace w1) \<and>
   blocked_us (hw (stepper (snd (Mod1Mode_step us now w1)))) \<le> blocked_us (hw (stepper w1)) + 2 \<and>
   blocked_us (trace (snd (Mod2Mode_step us now w2))) = blocked_us (trace w2) \<and>
   blocked_us (hw (stepper (snd (Mod2Mode_step us now w2)))) \<le> blocked_us (hw (stepper w2)) + 2 \<and>
   blocked_us (trace (snd (HomeMode_step us now limit h))) =
     blocked_us (trace h) + home_delay_us limit h \<and>
   blocked_us (hw (stepper (snd (HomeMode_step us now limit h)))) \<le>
     blocked_us (hw (stepper h)) + 2 \<and>
   (homed h \<and> baselineMeasuring h \<and> \<not> baselineDone h \<longrightarrow>
      home_delay_us limit h = 0 \<and>
      baselineDone (snd (HomeMode_step us now limit h)) = (5000 \<le> now - baselineStart h) \<and>
      fst (HomeMode_step us now limit h) = False)"
  using Mod1_step_blocked [of us now w1] Mod2_step_blocked [of us now w2]
    Home_step_trace_blocked [of us now limit h] Home_step_hw_blocked [of us now limit h]
    Home_measuring_done [of h us now limit]
  by (simp add: home_delay_us_def)

theorem step_blocking_delays_witness:
  "homed home_measuring \<and> baselineMeasuring home_measuring \<and> \<not> baselineDone home_measuring \<and>
   blocked_us (trace (snd (HomeMode_step 0 3000 HIGH home_measuring))) = 0 \<and>
   \<not> baselineDone (snd (HomeMode_step 0 3000 HIGH home_measuring)) \<and>
   baselineDone (snd (HomeMode_step 0 6000 HIGH home_measuring)) \<and>
   blocked_us (trace (snd (HomeMode_step 0 6000 HIGH home_measuring))) = 0"
proof -
  have m: "homed home_measuring \<and> baselineMeasuring home_measuring \<and> \<not> baselineDone home_measuring"
    "trace home_measuring = []" "baselineStart home_measuring = 1000"
    by (simp_all add: home_measuring_def)
  from step_blocking_delays [where us = 0 and now = 3000 and limit = HIGH and h = home_measuring]
    step_blocking_delays [where us = 0 and now = 6000 and limit = HIGH and h = home_measuring] m
  show ?thesis by (simp add: blocked_us_simps)
qed

text \<open>
  Claim C3.  The claim is that no call of a \<open>step()\<close> function sleeps for longer than a
  step pulse, which is also what \<open>IMode.h\<close> asks of every \<open>step()\<close>.  With the baseline
  done, the call of \<open>HomeMode::step\<close> that reports completion executes \<open>delay(2000)\<close>:
  it blocks for two seconds.
\<close>

theorem home_step_blocks_two_seconds:
  "fst (HomeMode_step 0 9000 HIGH home_done) \<and>
   trace (snd (HomeMode_step 0 9000 HIGH home_done)) = [Delay 2000] \<and>
   blocked_us (trace (snd (HomeMode_step 0 9000 HIGH home_done))) = 2000000"
  by (simp add: HomeMode_step_def home_done_def home_measuring_def world_calls
      blocked_us_simps Let_def)

subsection \<open>The pulse train of MOD2\<close>

lemma count_simps:
  "count_9V_on (xs @ ys) = count_9V_on xs + count_9V_on ys"
  "count_9V_on [] = 0"
  "count_9V_on (e # xs) = (if e = DigitalWrite relayPin1 LOW then 1 else 0) + count_9V_on xs"
  "count_lifts (xs @ ys) = count_lifts xs + count_lifts ys"
  "count_lifts [] = 0"
  "count_lifts (e # xs) = (if e = CallMoveRelativeMm (- 30) 3 then 1 else 0) + count_lifts xs"
  by (simp_all add: count_9V_on_def count_lifts_def)

lemma pulse_on_to_off:
  assumes "pulse_inv True w"
  shows "\<not> fst (Mod2Mode_step us (m2_pulseStart w + 1000) w) \<and>
     pulse_inv False (snd (Mod2Mode_step us (m2_pulseStart w + 1000) w)) \<and>
     m2_pulseStart (snd (Mod2Mode_step us (m2_pulseStart w + 1000) w)) = m2_pulseStart w + 1000 \<and>
     count_9V_on (trace (snd (Mod2Mode_step us (m2_pulseStart w + 1000) w))) =
       count_9V_on (trace w) \<and>
     count_lifts (trace (snd (Mod2Mode_step us (m2_pulseStart w + 1000) w))) =
       count_lifts (trace w)"
  using assms
  by (simp add: pulse_inv_def Mod2Mode_step_def Mod2_RelayPulse_def call_update_def
      update_idle positionMm_def digitalWrite_def count_simps Let_def)

lemma pulse_off_to_on:
  assumes "pulse_inv False w"
  shows "\<not> fst (Mod2Mode_step us (m2_pulseStart w + 1000) w) \<and>
     pulse_inv True (snd (Mod2Mode_step us (m2_pulseStart w + 1000) w)) \<and>
     m2_pulseStart (snd (Mod2Mode_step us (m2_pulseStart w + 1000) w)) = m2_pulseStart w + 1000 \<and>
     count_9V_on (trace (snd (Mod2Mode_step us (m2_pulseStart w + 1000) w))) =
       count_9V_on (trace w) + 1 \<and>
     count_lifts (trace (snd (Mod2Mode_step us (m2_pulseStart w + 1000) w))) =
       count_lifts (trace w)"
proof -
  have "uint (m2_pulseCount w + 1) < 256" using uint_lt2p [of "m2_pulseCount w + 1"] by simp
  with assms have "\<not> p2_pulseCount (mod2 (gParams w)) \<le> uint (m2_pulseCount w + 1)"
    by (simp add: pulse_inv_def)
  with assms show ?thesis
    by (simp add: pulse_inv_def Mod2Mode_step_def Mod2_RelayPulse_def call_update_def
      update_idle positionMm_def digitalWrite_def count_simps Let_def)
qed

lemma pulse_cycles:
  "pulse_inv True w \<Longrightarrow> m2_pulseStart w = t \<Longrightarrow>
     \<not> fst (Mod2Mode_run (pulse_ticks n t) w) \<and>
     pulse_inv True (snd (Mod2Mode_run (pulse_ticks n t) w)) \<and>
     count_9V_on (trace (snd (Mod2Mode_run (pulse_ticks n t) w))) = count_9V_on (trace w) + n \<and>
     count_lifts (trace (snd (Mod2Mode_run (pulse_ticks n t) w))) = count_lifts (trace w)"
proof (induction n arbitrary: w t)
  case 0
  then show ?case by simp
next
  case (Suc n)
  let ?w1 = "snd (Mod2Mode_step 0 (t + 1000) w)"
  let ?w2 = "snd (Mod2Mode_step 0 (t + 2000) ?w1)"
  from pulse_on_to_off [OF Suc.prems(1), of 0] Suc.prems(2)
  have 1: "\<not> fst (Mod2Mode_step 0 (t + 1000) w)" "pulse_inv False ?w1"
    "m2_pulseStart ?w1 = t + 1000" "count_9V_on (trace ?w1) = count_9V_on (trace w)"
    "count_lifts (trace ?w1) = count_lifts (trace w)"
    by simp_all
  have e: "t + 1000 + 1000 = t + 2000" by simp
  note step2 = pulse_off_to_on [OF 1(2), of 0, unfolded 1(3) e]
  from step2
  have 2: "\<not> fst (Mod2Mode_step 0 (t + 2000) ?w1)" "pulse_inv True ?w2"
    "m2_pulseStart ?w2 = t + 2000" "count_9V_on (trace ?w2) = count_9V_on (trace ?w1) + 1"
    "count_lifts (trace ?w2) = count_lifts (trace ?w1)"
    by blast+
  from Suc.IH [OF 2(2) 2(3)] 1 2 show ?case by (simp add: Let_def)
qed

lemma wait4_first_tick:
  "\<not> fst (Mod2Mode_step 0 1000 mod2_wait4) \<and>
   pulse_inv True (snd (Mod2Mode_step 0 1000 mod2_wait4)) \<and>
   m2_pulseStart (snd (Mod2Mode_step 0 1000 mod2_wait4)) = 1000 \<and>
   count_9V_on (trace (snd (Mod2Mode_step 0 1000 mod2_wait4))) = 1 \<and>
   count_lifts (trace (snd (Mod2Mode_step 0 1000 mod2_wait4))) = 0"
  by (simp add: pulse_inv_def Mod2Mode_step_def Mod2_Wait4_def call_update_def call_setEnabled_def
      update_idle positionMm_def digitalWrite_def count_simps Let_def mod2_wait4_def
      stepper_at_10mm_simps Z_MIN_def Z_MAX_def gParams_default_def)

lemma update_target_or_rest:
  "motion s = ToTarget \<or> (motion s = Idle \<and> speed_mm_s s = 0) \<Longrightarrow>
   motion (StepperDriver_update us s) = ToTarget \<or>
   (motion (StepperDriver_update us s) = Idle \<and> speed_mm_s (StepperDriver_update us s) = 0)"
  by (auto simp add: StepperDriver_update_def stepOnce_def Let_def)

lemma update_at_rest: "at_rest s \<Longrightarrow> StepperDriver_update us s = s\<lparr>tNextStep := us\<rparr>"
  by (simp add: at_rest_def update_idle)

lemma at_rest_tNextStep: "at_rest (s\<lparr>tNextStep := us\<rparr>) = at_rest s"
  by (simp add: at_rest_def positionMm_def)

lemma at_rest_in_range:
  "at_rest s \<Longrightarrow> \<not> positionMm s \<le> Z_MIN" "at_rest s \<Longrightarrow> \<not> Z_MAX \<le> positionMm s"
  by (auto simp add: at_rest_def)

lemma positionMm_tNextStep: "positionMm (s\<lparr>tNextStep := us\<rparr>) = positionMm s"
  by (simp add: positionMm_def)

lemma moveRelativeMm_ToTarget: "motion (moveRelativeMm dx v s) = ToTarget"
  by (simp add: moveRelativeMm_def moveToMm_def Let_def)

lemma Mod2_abort_inv_plain:
  "count_9V_on (trace w) = c \<Longrightarrow> count_lifts (trace w) = l \<Longrightarrow>
   p2_pulseCount (mod2 (gParams w)) = P \<Longrightarrow> Mod2_inv P c l (snd (Mod2_abort w))"
  by (simp add: Mod2_inv_def Mod2_abort_def world_calls count_simps Let_def)

lemma Mod2_abort_inv_lifted:
  "count_9V_on (trace w) = c + nat P \<Longrightarrow> count_lifts (trace w) = l + 1 \<Longrightarrow>
   p2_pulseCount (mod2 (gParams w)) = P \<Longrightarrow> Mod2_inv P c l (snd (Mod2_abort w))"
  by (simp add: Mod2_inv_def Mod2_abort_def world_calls count_simps relays_off_def Let_def)

lemma Mod2_step_inv:
  assumes inv: "Mod2_inv P c l w" and P: "1 \<le> P" "P \<le> 255"
  shows "Mod2_inv P c l (snd (Mod2Mode_step us now w))"
proof (cases "m2_st w")
  case M2_MovingDownDetect
  with inv show ?thesis
    by (auto simp add: Mod2_inv_def Mod2Mode_step_def Mod2_abort_def Mod2_MovingDownDetect_def
        world_calls count_simps Let_def)
next
  case M2_Wait1
  with inv show ?thesis
    by (auto simp add: Mod2_inv_def Mod2Mode_step_def Mod2_abort_def Mod2_Wait1_def
        world_calls count_simps Let_def)
next
  case M2_MoveDown1
  with inv show ?thesis
    by (auto simp add: Mod2_inv_def Mod2Mode_step_def Mod2_abort_def Mod2_MoveDown1_def
        world_calls count_simps Let_def)
next
  case M2_Wait2
  with inv show ?thesis
    by (auto simp add: Mod2_inv_def Mod2Mode_step_def Mod2_abort_def Mod2_Wait2_def
        world_calls count_simps Let_def)
next
  case M2_Validate30V
  with inv show ?thesis
    by (auto simp add: Mod2_inv_def Mod2Mode_step_def Mod2_abort_def Mod2_Validate30V_def
        world_calls count_simps Let_def case_prod_beta)
next
  case M2_RelayHold
  with inv show ?thesis
    by (auto simp add: Mod2_inv_def Mod2Mode_step_def Mod2_abort_def Mod2_RelayHold_def
        world_calls count_simps Let_def case_prod_beta)
next
  case M2_Wait3
  with inv show ?thesis
    by (auto simp add: Mod2_inv_def Mod2Mode_step_def Mod2_abort_def Mod2_Wait3_def
        world_calls count_simps moveRelativeMm_ToTarget Let_def)
next
  case M2_MoveDown2
  with inv have m: "motion (stepper w) = ToTarget \<or>
      (motion (stepper w) = Idle \<and> speed_mm_s (stepper w) = 0)"
    by (simp add: Mod2_inv_def)
  from update_target_or_rest [OF m, of us] M2_MoveDown2 inv show ?thesis
    by (auto simp add: Mod2_inv_def Mod2Mode_step_def Mod2_abort_def Mod2_MoveDown2_def
        world_calls count_simps isBusy_def at_rest_def Let_def)
next
  case M2_Wait4
  with inv have r: "at_rest (stepper w)" by (simp add: Mod2_inv_def)
  from M2_Wait4 inv P show ?thesis
    by (auto simp add: Mod2_inv_def Mod2Mode_step_def Mod2_Wait4_def update_at_rest [OF r]
        at_rest_tNextStep positionMm_tNextStep at_rest_in_range [OF r] r
        world_calls count_simps Let_def)
next
  case M2_RelayPulse
  with inv have r: "at_rest (stepper w)" and lt: "uint (m2_pulseCount w) < P"
    by (simp_all add: Mod2_inv_def)
  from lt P have nowrap: "uint (m2_pulseCount w + 1) = uint (m2_pulseCount w) + 1"
    by (simp add: uint_word_ariths) 
  have fin: "Suc (unat (m2_pulseCount w)) = nat P" if "P \<le> uint (m2_pulseCount w) + 1"
  proof -
    from that lt have "P = uint (m2_pulseCount w) + 1" by arith
    moreover have "nat (uint (m2_pulseCount w) + 1) = Suc (unat (m2_pulseCount w))"
      by (simp add: nat_add_distrib)
    ultimately show ?thesis by simp
  qed
  from M2_RelayPulse inv P fin show ?thesis
    by (auto simp add: Mod2_inv_def Mod2Mode_step_def Mod2_RelayPulse_def update_at_rest [OF r]
        at_rest_tNextStep positionMm_tNextStep at_rest_in_range [OF r] r nowrap relays_off_def
        world_calls count_simps Let_def nat_add_distrib)
next
  case M2_FinalLift
  with inv show ?thesis
    by (auto simp add: Mod2_inv_def Mod2Mode_step_def Mod2_abort_def Mod2_FinalLift_def
        world_calls count_simps relays_off_def Let_def)
next
  case M2_Done
  with inv show ?thesis
    by (auto simp add: Mod2_inv_def Mod2Mode_step_def Mod2_abort_def
        world_calls count_simps relays_off_def Let_def)
qed


lemma Mod2_begin_inv:
  "Mod2_inv (p2_pulseCount (mod2 (gParams w0))) (count_9V_on (trace w0)) (count_lifts (trace w0))
     (Mod2Mode_begin w0)"
  by (simp add: Mod2_inv_def Mod2Mode_begin_def world_calls count_simps Let_def)

lemma Mod2_run_inv:
  "Mod2_inv P c l w \<Longrightarrow> 1 \<le> P \<Longrightarrow> P \<le> 255 \<Longrightarrow> Mod2_inv P c l (snd (Mod2Mode_run ts w))"
proof (induction ts arbitrary: w)
  case Nil
  then show ?case by simp
next
  case (Cons t ts)
  from Mod2_step_inv [OF Cons.prems, of "fst t" "snd t"]
  have "Mod2_inv P c l (snd (Mod2Mode_step (fst t) (snd t) w))" .
  with Cons.IH [OF this Cons.prems(2,3)] show ?case by (simp add: Let_def)
qed

lemma Mod2_step_done:
  "fst (Mod2Mode_step us now w) \<Longrightarrow> m2_st (snd (Mod2Mode_step us now w)) = M2_Done"
  by (auto simp add: Mod2Mode_step_def Mod2_blocks Let_def case_prod_beta split: if_splits)

lemma Mod2_run_done:
  "fst (Mod2Mode_run ts w) \<Longrightarrow> m2_st (snd (Mod2Mode_run ts w)) = M2_Done"
  by (induction ts arbitrary: w) (auto simp add: Let_def Mod2_step_done)

lemma uint_less_Suc_unat: "uint (x :: u8) < P \<Longrightarrow> Suc (unat x) \<le> nat P"
proof -
  assume a: "uint x < P"
  have "int (unat x) = uint x" by simp
  with a have "int (unat x) < P" by simp
  then show ?thesis by linarith
qed

text \<open>
  For a pulse count \<open>P\<close> between 1 and 255, in every run from \<open>begin()\<close>: while the
  mode is in its pulse block the 9 V has been switched on between 1 and \<open>P\<close> times and
  no lift has been issued; once it is past the pulse block the 9 V has been switched on
  exactly \<open>P\<close> times, exactly one final lift has been issued and both relay outputs are
  \<open>HIGH\<close>.
\<close>

lemma pulse_train_exact_small_count:
  assumes "1 \<le> P" "P \<le> 255" "p2_pulseCount (mod2 (gParams w0)) = P"
  shows "m2_st (snd (Mod2Mode_run ts (Mod2Mode_begin w0))) = M2_RelayPulse \<Longrightarrow>
           count_9V_on (trace w0) < count_9V_on (trace (snd (Mod2Mode_run ts (Mod2Mode_begin w0)))) \<and>
           count_9V_on (trace (snd (Mod2Mode_run ts (Mod2Mode_begin w0)))) \<le>
             count_9V_on (trace w0) + nat P \<and>
           count_lifts (trace (snd (Mod2Mode_run ts (Mod2Mode_begin w0)))) = count_lifts (trace w0)"
    and "m2_st (snd (Mod2Mode_run ts (Mod2Mode_begin w0))) = M2_FinalLift \<or>
         m2_st (snd (Mod2Mode_run ts (Mod2Mode_begin w0))) = M2_Done \<and>
         count_9V_on (trace w0) < count_9V_on (trace (snd (Mod2Mode_run ts (Mod2Mode_begin w0)))) \<Longrightarrow>
           count_9V_on (trace (snd (Mod2Mode_run ts (Mod2Mode_begin w0)))) =
             count_9V_on (trace w0) + nat P \<and>
           count_lifts (trace (snd (Mod2Mode_run ts (Mod2Mode_begin w0)))) =
             count_lifts (trace w0) + 1 \<and>
           relays_off (snd (Mod2Mode_run ts (Mod2Mode_begin w0)))"
proof -
  let ?w = "snd (Mod2Mode_run ts (Mod2Mode_begin w0))"
  from Mod2_begin_inv [of w0] assms(3)
  have "Mod2_inv P (count_9V_on (trace w0)) (count_lifts (trace w0)) (Mod2Mode_begin w0)" by simp
  from Mod2_run_inv [OF this assms(1,2), of ts]
  have i: "Mod2_inv P (count_9V_on (trace w0)) (count_lifts (trace w0)) ?w" .
  show "m2_st ?w = M2_RelayPulse \<Longrightarrow>
           count_9V_on (trace w0) < count_9V_on (trace ?w) \<and>
           count_9V_on (trace ?w) \<le> count_9V_on (trace w0) + nat P \<and>
           count_lifts (trace ?w) = count_lifts (trace w0)"
    using i assms(1) by (auto simp add: Mod2_inv_def uint_less_Suc_unat)
  show "m2_st ?w = M2_FinalLift \<or>
         m2_st ?w = M2_Done \<and> count_9V_on (trace w0) < count_9V_on (trace ?w) \<Longrightarrow>
           count_9V_on (trace ?w) = count_9V_on (trace w0) + nat P \<and>
           count_lifts (trace ?w) = count_lifts (trace w0) + 1 \<and> relays_off ?w"
    using i by (auto simp add: Mod2_inv_def)
qed

text \<open>
  Claim C6.  The claim is that a pulse phase with a configured count \<open>P \<ge> 1\<close> switches
  the 9 V on exactly \<open>P\<close> times and ends with one final lift.  The counter
  \<open>pulseCount_\<close> is 8 bits wide and the parameter editor stores counts up to 999.  With
  \<open>P = 300\<close> the counter never reaches \<open>P\<close>: on ticks one second apart, 601 ticks after
  the wait before the pulses the 9 V has been switched on 301 times, the mode is still in
  its pulse block and no lift has been issued.
\<close>

theorem pulse_train_overruns_large_count:
  "p2_pulseCount (mod2 (gParams mod2_wait4)) = 300 \<and>
   \<not> fst (Mod2Mode_run ((0, 1000) # pulse_ticks 300 1000) mod2_wait4) \<and>
   m2_st (snd (Mod2Mode_run ((0, 1000) # pulse_ticks 300 1000) mod2_wait4)) = M2_RelayPulse \<and>
   count_9V_on (trace (snd (Mod2Mode_run ((0, 1000) # pulse_ticks 300 1000) mod2_wait4))) = 301 \<and>
   count_lifts (trace (snd (Mod2Mode_run ((0, 1000) # pulse_ticks 300 1000) mod2_wait4))) = 0"
proof -
  let ?w = "snd (Mod2Mode_step 0 1000 mod2_wait4)"
  from wait4_first_tick have f: "\<not> fst (Mod2Mode_step 0 1000 mod2_wait4)"
    "pulse_inv True ?w" "m2_pulseStart ?w = 1000" "count_9V_on (trace ?w) = 1"
    "count_lifts (trace ?w) = 0"
    by simp_all
  have p: "p2_pulseCount (mod2 (gParams mod2_wait4)) = 300"
    by (simp add: mod2_wait4_def)
  from pulse_cycles [OF f(2) f(3), of 300] f p show ?thesis
    by (simp add: Let_def pulse_inv_def)
qed

end
